theory Spec2Isabelle
  imports Main
begin

text \<open>
  A shallow embedding of the Telegram relay worker: its D1 abstraction layer, the
  gatekeeping pipeline for private messages (commands, block check, administrator input,
  verification, keyword block, content filter, auto-reply), the relay into the user's
  forum topic with its single retry, the handling of edited messages and of button
  presses, and the administrator menus. An \<open>async\<close> function is a function from the world
  (the three tables and the log of Bot API calls) to an outcome and a new world; an
  exception is the outcome \<open>Thrown\<close>, and what was written before it stays written. The
  Bot API, \<open>RegExp\<close>, \<open>JSON\<close> and the clock are parameters of the environment. The admin
  reply fan-out and the unused \<open>updateTopicAndSendCard\<close> are not modelled; D1 statements
  are taken to succeed.
\<close>

section \<open>JavaScript string primitives used by the worker\<close>

text \<open>
  Strings are lists of 8-bit characters. The worker's own string literals that matter
  for control flow (\<open>/start\<close>, \<open>/help\<close>, \<open>config:\<close>, \<open>true\<close>, the configuration keys)
  are ASCII, where this coincides with JavaScript's UTF-16 strings. White space is the
  ASCII part of what \<open>String.prototype.trim\<close> and \<open>parseInt\<close> skip.
\<close>

definition isWhiteSpace :: "char \<Rightarrow> bool" where
  "isWhiteSpace c = (c \<in> {CHR 0x09, CHR 0x0A, CHR 0x0B, CHR 0x0C, CHR 0x0D, CHR '' ''})"

definition trim :: "string \<Rightarrow> string" where
  "trim s = rev (dropWhile isWhiteSpace (rev (dropWhile isWhiteSpace s)))"

definition startsWith :: "string \<Rightarrow> string \<Rightarrow> bool" where
  "startsWith s p = (take (length p) s = p)"

text \<open>\<open>s.split(sep)\<close> for a non-empty separator string: the pieces between the
  occurrences of \<open>sep\<close>, scanning from the left; the empty string splits into \<open>[""]\<close>.\<close>

fun split_from :: "string \<Rightarrow> string \<Rightarrow> string \<Rightarrow> string list" where
  "split_from sep acc [] = [rev acc]"
| "split_from sep acc (c # cs) =
     (if sep \<noteq> [] \<and> take (length sep) (c # cs) = sep
      then rev acc # split_from sep [] (drop (length sep - 1) cs)
      else split_from sep (c # acc) cs)"

definition split :: "string \<Rightarrow> string \<Rightarrow> string list" where
  "split s sep = split_from sep [] s"

definition upperChar :: "char \<Rightarrow> char" where
  "upperChar c =
     (let n = (of_char c :: nat) in if 97 \<le> n \<and> n \<le> 122 then char_of (n - 32) else c)"

definition lowerChar :: "char \<Rightarrow> char" where
  "lowerChar c =
     (let n = (of_char c :: nat) in if 65 \<le> n \<and> n \<le> 90 then char_of (n + 32) else c)"

definition toUpperCase :: "string \<Rightarrow> string" where
  "toUpperCase s = map upperChar s"

definition toLowerCase :: "string \<Rightarrow> string" where
  "toLowerCase s = map lowerChar s"

text \<open>\<open>s.replace(pat, rep)\<close> with a string pattern: only the first occurrence.\<close>

fun replaceFirst :: "string \<Rightarrow> string \<Rightarrow> string \<Rightarrow> string" where
  "replaceFirst pat rep [] = (if pat = [] then rep else [])"
| "replaceFirst pat rep (c # cs) =
     (if startsWith (c # cs) pat then rep @ drop (length pat) (c # cs)
      else c # replaceFirst pat rep cs)"

definition replaceAllChar :: "char \<Rightarrow> string \<Rightarrow> string \<Rightarrow> string" where
  "replaceAllChar c rep s = concat (map (\<lambda>x. if x = c then rep else [x]) s)"

text \<open>\<open>escapeHtml\<close>: three global replacements, \<open>&\<close> first.\<close>

definition escapeHtml :: "string \<Rightarrow> string" where
  "escapeHtml t =
     (if t = [] then []
      else replaceAllChar (CHR ''>'') ''&gt;''
             (replaceAllChar (CHR ''<'') ''&lt;''
               (replaceAllChar (CHR ''&'') ''&amp;'' t)))"

text \<open>\<open>parseInt(s, 10)\<close>: leading white space is skipped, then an optional sign, then
  the longest prefix of decimal digits; with no digit the result is \<open>NaN\<close>, here \<open>None\<close>.
  The result is an unbounded integer (the rounding of values beyond \<open>2^53\<close> is not
  modelled).\<close>

definition isDigit :: "char \<Rightarrow> bool" where
  "isDigit c = (let n = (of_char c :: nat) in 48 \<le> n \<and> n \<le> 57)"

definition digitsValue :: "string \<Rightarrow> int" where
  "digitsValue ds = foldl (\<lambda>a c. 10 * a + (int (of_char c) - 48)) 0 ds"

definition parseInt :: "string \<Rightarrow> int option" where
  "parseInt s =
     (let t = dropWhile isWhiteSpace s;
          neg = (case t of [] \<Rightarrow> False | c # _ \<Rightarrow> c = CHR ''-'');
          u = (case t of [] \<Rightarrow> [] | c # r \<Rightarrow> if c = CHR ''-'' \<or> c = CHR ''+'' then r else t);
          ds = takeWhile isDigit u
      in if ds = [] then None
         else Some (if neg then - digitsValue ds else digitsValue ds))"

text \<open>\<open>x || d\<close> on the result of \<open>parseInt\<close>: \<open>NaN\<close> and \<open>0\<close> are falsy.\<close>

definition orDefault :: "int option \<Rightarrow> int \<Rightarrow> int" where
  "orDefault x d = (case x of None \<Rightarrow> d | Some n \<Rightarrow> if n = 0 then d else n)"

section \<open>Data model\<close>

text \<open>The \<open>users\<close> table. \<open>user_state\<close> holds one of the strings \<open>new\<close>,
  \<open>pending_verification\<close>, \<open>verified\<close>; \<open>is_blocked\<close> is stored as 0/1 and read back
  with \<open>=== 1\<close>. A thread id is written as \<open>message_thread_id.toString()\<close>, the decimal
  string of an integer, which is never the empty (falsy) string: the stored string is
  represented by the integer it denotes. Message ids are treated the same way. User and
  chat ids are the strings \<open>id.toString()\<close>.\<close>

datatype user_state = New | PendingVerification | Verified

record user_info =
  name :: string
  username :: string
  first_message_timestamp :: int

record user_row =
  user_state :: user_state
  is_blocked :: bool
  block_count :: int
  topic_id :: "int option"
  user_info :: "user_info option"

text \<open>The \<open>messages\<close> table (the ledger), keyed by user id and message id.\<close>

record message_data =
  data_text :: string
  data_date :: int

text \<open>An auto-reply rule \<open>{ keywords, response, id }\<close> (the field names are prefixed
  here); \<open>rule_id\<close> is \<open>id.toString()\<close>.\<close>

record rule =
  rule_keywords :: string
  rule_response :: string
  rule_id :: string

text \<open>Telegram objects, with the fields the worker reads. A field that the worker only
  tests for presence is a \<open>bool\<close>; an optional field is an \<open>option\<close>.\<close>

record tg_user =
  user_id :: string
  first_name :: "string option"
  last_name :: "string option"
  tg_username :: "string option"

record message =
  chat_id :: string
  sender :: tg_user
  message_id :: int
  message_date :: int
  message_text :: "string option"
  caption :: "string option"
  forward_from :: bool
  forward_from_chat :: "string option"
  audio :: bool
  voice :: bool
  sticker :: bool
  animation :: bool
  photo :: bool
  video :: bool
  document :: bool
  entities :: "string list option"
  caption_entities :: "string list option"

text \<open>The message a pressed button belongs to, and the callback query.\<close>

record button_message =
  bm_chat_id :: string
  bm_message_id :: int
  bm_message_thread_id :: "int option"

record callback_query =
  cq_id :: string
  cq_data :: string
  cq_message :: button_message
  cq_sender_id :: string

subsection \<open>Outbound texts\<close>

text \<open>The worker's message texts are fixed literals and templates. Each literal is a
  constructor, each template a constructor with the values it interpolates.\<close>

datatype filter_reason =
    ReasonForward | ReasonChannelForward | ReasonAudioVoice | ReasonStickerGif
  | ReasonMedia | ReasonLink | ReasonPureText

datatype tg_text =
    Plain string
  | DefaultWelcome
  | DefaultVerificationQuestion
  | VerificationPassed
  | VerificationFailed
  | PleaseStart
  | BlockNotification int int
  | AutoBlockMessage
  | FilterNotification filter_reason
  | AutoReply string
  | CreateTopicFailed
  | RelayFailed
  | RecreateTopicFailed
  | InfoCard string string string "int option"
  | EditNotification "string option" "int option" "string option"
  | MainMenu
  | BaseConfigMenu "string option" "string option" string
  | AutoReplyMenu nat
  | KeywordBlockMenu nat string
  | RuleListText string "(string \<times> string) list"
  | TypeBlockMenu "bool list"
  | EditPrompt string
  | AddPrompt string
  | EditCancelled
  | StateError
  | KeywordAdded string
  | KeywordNotAdded
  | RuleAdded string
  | RuleNotAdded
  | ConfigUpdated string string
  | NoPermission
  | Processing
  | RuleDeleted string
  | CardPinned
  | PinFailed
  | Executing bool
  | BlockedConfirmation string
  | UnblockedConfirmation string

text \<open>A \<open>reply_markup\<close> is the list of the \<open>callback_data\<close> of its buttons (every
  keyboard of the worker has one button per row); labels are presentation.\<close>

type_synonym keyboard = "string list"

datatype tg_call =
    SendMessage string tg_text "int option" "keyboard option"
  | EditMessageText string int tg_text "keyboard option"
  | CopyMessage string string int "int option"
  | CreateForumTopic string string
  | AnswerCallbackQuery string tg_text bool
  | DeleteMessage string int
  | PinChatMessage string int "int option"
  | EditMessageReplyMarkup string int keyboard

datatype tg_result = TgError | TgOk | TgTopic int

datatype 'a parsed = ParseError | NotArray | Parsed 'a

datatype admin_state = StateSyntaxError | StateNull | StateObject string string

subsection \<open>Environment and world\<close>

text \<open>The environment of one deployment: the bindings \<open>ADMIN_IDS\<close>, \<open>ADMIN_GROUP_ID\<close>
  and the other variables by name; the Telegram Bot API as a function of the calls made
  so far and the call (any call may fail, \<open>createForumTopic\<close> answers with the new thread
  id); and the JavaScript built-ins the worker applies to stored text: \<open>RegExp\<close>
  (whether a source compiles, what it matches, its \<open>source\<close>), \<open>JSON.parse\<close> and
  \<open>JSON.stringify\<close> on the three stored structures (for a rule list \<open>ParseError\<close> is
  the exception of \<open>JSON.parse\<close> and \<open>NotArray\<close> a value that is not an array; the
  stored admin state either makes \<open>JSON.parse\<close> throw, or parses to \<open>null\<close>, whose fields
  cannot be read, or to a value with the fields \<open>action\<close> and \<open>key\<close>, an absent field
  being the empty string), \<open>Date.now()\<close> and
  \<open>Date.now() + Math.random()\<close> as strings.\<close>

record env =
  ADMIN_IDS :: "string option"
  ADMIN_GROUP_ID :: string
  vars :: "string \<Rightarrow> string option"
  api :: "tg_call list \<Rightarrow> tg_call \<Rightarrow> tg_result"
  regex_valid :: "string \<Rightarrow> bool"
  regex_test :: "string \<Rightarrow> string \<Rightarrow> bool"
  regex_source :: "string \<Rightarrow> string"
  parse_keywords :: "string \<Rightarrow> string list parsed"
  stringify_keywords :: "string list \<Rightarrow> string"
  parse_rules :: "string \<Rightarrow> rule list parsed"
  stringify_rules :: "rule list \<Rightarrow> string"
  parse_admin_state :: "string \<Rightarrow> admin_state"
  stringify_admin_state :: "string \<times> string \<Rightarrow> string"
  date_now :: string
  fresh_id :: "nat \<Rightarrow> string"

text \<open>The world: the three D1 tables and the log of the Bot API calls issued, oldest
  first (a call is logged whether or not it succeeds).\<close>

record world =
  config :: "string \<Rightarrow> string option"
  users :: "string \<Rightarrow> user_row option"
  messages :: "string \<times> int \<Rightarrow> message_data option"
  sent :: "tg_call list"

subsection \<open>Asynchronous functions as state transformers with exceptions\<close>

datatype 'a outcome = Returned 'a | Thrown

type_synonym 'a action = "world \<Rightarrow> 'a outcome \<times> world"

definition ret :: "'a \<Rightarrow> 'a action" where
  "ret x = (\<lambda>w. (Returned x, w))"

definition throw :: "'a action" where
  "throw = (\<lambda>w. (Thrown, w))"

definition then_do :: "'a action \<Rightarrow> ('a \<Rightarrow> 'b action) \<Rightarrow> 'b action" where
  "then_do m f = (\<lambda>w. case m w of (Returned x, w') \<Rightarrow> f x w' | (Thrown, w') \<Rightarrow> (Thrown, w'))"

definition try_catch :: "'a action \<Rightarrow> 'a action \<Rightarrow> 'a action" where
  "try_catch m h = (\<lambda>w. case m w of (Returned x, w') \<Rightarrow> (Returned x, w') | (Thrown, w') \<Rightarrow> h w')"

section \<open>D1 abstraction layer\<close>

definition dbConfigGet :: "string \<Rightarrow> string option action" where
  "dbConfigGet key = (\<lambda>w. (Returned (config w key), w))"

definition dbConfigPut :: "string \<Rightarrow> string \<Rightarrow> unit action" where
  "dbConfigPut key v = (\<lambda>w. (Returned (), w\<lparr>config := (config w)(key \<mapsto> v)\<rparr>))"

definition default_user :: user_row where
  "default_user = \<lparr>user_state = New, is_blocked = False, block_count = 0,
                    topic_id = None, user_info = None\<rparr>"

definition dbUserGetOrCreate :: "string \<Rightarrow> user_row action" where
  "dbUserGetOrCreate userId =
     (\<lambda>w. case users w userId of
             Some u \<Rightarrow> (Returned u, w)
           | None \<Rightarrow> (Returned default_user, w\<lparr>users := (users w)(userId \<mapsto> default_user)\<rparr>))"

text \<open>\<open>dbUserUpdate(userId, data)\<close>: \<open>data\<close> is a set of column assignments; the SQL
  \<open>UPDATE ... WHERE user_id = ?\<close> changes nothing when the row does not exist.\<close>

datatype column_update =
    SetUserState user_state
  | SetIsBlocked bool
  | SetBlockCount int
  | SetTopicId "int option"
  | SetUserInfo user_info

fun apply_update :: "column_update \<Rightarrow> user_row \<Rightarrow> user_row" where
  "apply_update (SetUserState s) u = u\<lparr>user_state := s\<rparr>"
| "apply_update (SetIsBlocked b) u = u\<lparr>is_blocked := b\<rparr>"
| "apply_update (SetBlockCount n) u = u\<lparr>block_count := n\<rparr>"
| "apply_update (SetTopicId t) u = u\<lparr>topic_id := t\<rparr>"
| "apply_update (SetUserInfo i) u = u\<lparr>user_info := Some i\<rparr>"

definition dbUserUpdate :: "string \<Rightarrow> column_update list \<Rightarrow> unit action" where
  "dbUserUpdate userId data =
     (\<lambda>w. case users w userId of
             None \<Rightarrow> (Returned (), w)
           | Some u \<Rightarrow> (Returned (), w\<lparr>users := (users w)(userId \<mapsto> fold apply_update data u)\<rparr>))"

definition dbMessageDataPut :: "string \<Rightarrow> int \<Rightarrow> message_data \<Rightarrow> unit action" where
  "dbMessageDataPut userId messageId d =
     (\<lambda>w. (Returned (), w\<lparr>messages := (messages w)((userId, messageId) \<mapsto> d)\<rparr>))"

definition dbMessageDataGet :: "string \<Rightarrow> int \<Rightarrow> message_data option action" where
  "dbMessageDataGet userId messageId = (\<lambda>w. (Returned (messages w (userId, messageId)), w))"

definition admin_state_key :: "string \<Rightarrow> string" where
  "admin_state_key userId = ''admin_state:'' @ userId"

definition dbAdminStateDelete :: "string \<Rightarrow> unit action" where
  "dbAdminStateDelete userId =
     (\<lambda>w. (Returned (), w\<lparr>config := (config w)(admin_state_key userId := None)\<rparr>))"

text \<open>\<open>stateJson || null\<close>: a stored empty string counts as no state.\<close>

definition dbAdminStateGet :: "string \<Rightarrow> string option action" where
  "dbAdminStateGet userId =
     then_do (dbConfigGet (admin_state_key userId))
       (\<lambda>stateJson. ret (case stateJson of None \<Rightarrow> None
                          | Some j \<Rightarrow> if j = [] then None else Some j))"

definition dbAdminStatePut :: "string \<Rightarrow> string \<Rightarrow> unit action" where
  "dbAdminStatePut userId stateJson = dbConfigPut (admin_state_key userId) stateJson"

section \<open>Helpers\<close>

text \<open>\<open>telegramApi\<close>: the call is issued; a failed call (or a non-JSON answer) throws.\<close>

definition telegramApi :: "env \<Rightarrow> tg_call \<Rightarrow> tg_result action" where
  "telegramApi e c =
     (\<lambda>w. let r = api e (sent w) c; w' = w\<lparr>sent := sent w @ [c]\<rparr>
           in case r of TgError \<Rightarrow> (Thrown, w') | _ \<Rightarrow> (Returned r, w'))"

definition envKey :: "string \<Rightarrow> string" where
  "envKey key =
     replaceFirst ''VERIF_A'' ''VERIFICATION_ANSWER''
       (replaceFirst ''VERIF_Q'' ''VERIFICATION_QUESTION''
         (replaceFirst ''WELCOME_MSG'' ''WELCOME_MESSAGE'' (toUpperCase key)))"

text \<open>\<open>getConfig\<close>: the D1 value, else the environment variable, else the default.
  \<open>getConfigOpt\<close> is the same lookup with the default left to the caller, for the
  defaults that are non-ASCII literals.\<close>

definition getConfigOpt :: "string \<Rightarrow> env \<Rightarrow> string option action" where
  "getConfigOpt key e =
     then_do (dbConfigGet key)
       (\<lambda>configValue. case configValue of
            Some v \<Rightarrow> ret (Some v)
          | None \<Rightarrow> ret (vars e (envKey key)))"

definition getConfig :: "string \<Rightarrow> env \<Rightarrow> string \<Rightarrow> string action" where
  "getConfig key e defaultValue =
     then_do (getConfigOpt key e)
       (\<lambda>v. ret (case v of Some x \<Rightarrow> x | None \<Rightarrow> defaultValue))"

definition isAdminUser :: "string \<Rightarrow> env \<Rightarrow> bool" where
  "isAdminUser userId e =
     (case ADMIN_IDS e of
        None \<Rightarrow> False
      | Some ids \<Rightarrow> if ids = [] then False else userId \<in> set (map trim (split ids '','')))"

text \<open>\<open>getUserInfo\<close>: the display name, the user name (or the placeholder, the UTF-8
  bytes of the one-character literal), the topic name cut to 128 characters (of the
  8-bit strings here; \<open>substring\<close> counts UTF-16 units, the same for ASCII names), and the
  profile card with the escaped values and the time it shows (\<open>None\<close>: the current
  time).\<close>

definition no_username :: string where
  "no_username = [CHR 0xE6, CHR 0x97, CHR 0xA0]"

definition rawName :: "tg_user \<Rightarrow> string" where
  "rawName u =
     (case first_name u of None \<Rightarrow> [] | Some f \<Rightarrow> f) @
     (case last_name u of None \<Rightarrow> [] | Some l \<Rightarrow> if l = [] then [] else '' '' @ l)"

definition rawUsername :: "tg_user \<Rightarrow> string" where
  "rawUsername u =
     (case tg_username u of None \<Rightarrow> no_username
      | Some n \<Rightarrow> if n = [] then no_username else ''@'' @ n)"

definition topicName :: "tg_user \<Rightarrow> string" where
  "topicName u = take 128 (trim (rawName u) @ '' | '' @ user_id u)"

definition infoCard :: "tg_user \<Rightarrow> int option \<Rightarrow> tg_text" where
  "infoCard u initialTimestamp =
     InfoCard (escapeHtml (rawName u)) (escapeHtml (rawUsername u)) (escapeHtml (user_id u))
       (case initialTimestamp of None \<Rightarrow> None | Some t \<Rightarrow> if t = 0 then None else Some t)"

definition getInfoCardButtons :: "string \<Rightarrow> bool \<Rightarrow> keyboard" where
  "getInfoCardButtons userId isBlocked =
     [(if isBlocked then ''unblock'' else ''block'') @ '':'' @ userId,
      ''pin_card:'' @ userId]"

section \<open>Rule lists\<close>

text \<open>The legacy line formats. A rule of the old format keeps its compiled \<open>RegExp\<close>;
  here it keeps the source text, and the conversion takes \<open>regex_source\<close> of it.\<close>

definition parseOldKeywordResponses :: "env \<Rightarrow> string \<Rightarrow> (string \<times> string) list" where
  "parseOldKeywordResponses e envValue =
     (if envValue = [] then []
      else concat (map (\<lambda>line.
             let trimmedLine = trim line
             in if trimmedLine = [] \<or> startsWith trimmedLine ''//'' then []
                else (case split trimmedLine ''==='' of
                        [p0, p1] \<Rightarrow>
                          (let kw = trim p0; resp = trim p1
                           in if kw \<noteq> [] \<and> resp \<noteq> [] \<and> regex_valid e kw
                              then [(kw, resp)] else [])
                      | _ \<Rightarrow> []))
           (split envValue [CHR 0x0A])))"

definition parseOldBlockKeywords :: "env \<Rightarrow> string \<Rightarrow> string list" where
  "parseOldBlockKeywords e envValue =
     (if envValue = [] then []
      else concat (map (\<lambda>line.
             let trimmedLine = trim line
             in if trimmedLine = [] \<or> startsWith trimmedLine ''//'' then []
                else if regex_valid e trimmedLine then [trimmedLine] else [])
           (split envValue [CHR 0x0A])))"

definition getAutoReplyRules :: "env \<Rightarrow> rule list action" where
  "getAutoReplyRules e =
     then_do (getConfig ''keyword_responses'' e ''[]'')
       (\<lambda>jsonString. case parse_rules e jsonString of
            Parsed rules \<Rightarrow> ret rules
          | NotArray \<Rightarrow> ret []
          | ParseError \<Rightarrow>
              (let oldRules = parseOldKeywordResponses e jsonString
               in if oldRules \<noteq> [] then
                    (let newRules = map (\<lambda>(i, (kw, resp)).
                            \<lparr>rule_keywords = regex_source e kw, rule_response = resp,
                             rule_id = fresh_id e i\<rparr>) (enumerate 0 oldRules)
                     in then_do (dbConfigPut ''keyword_responses'' (stringify_rules e newRules))
                          (\<lambda>_. ret newRules))
                  else ret []))"

definition getBlockKeywords :: "env \<Rightarrow> string list action" where
  "getBlockKeywords e =
     then_do (getConfig ''block_keywords'' e ''[]'')
       (\<lambda>jsonString. case parse_keywords e jsonString of
            Parsed kws \<Rightarrow> ret kws
          | NotArray \<Rightarrow> ret []
          | ParseError \<Rightarrow>
              (let oldKeywords = map (regex_source e) (parseOldBlockKeywords e jsonString)
               in if oldKeywords \<noteq> [] then
                    then_do (dbConfigPut ''block_keywords'' (stringify_keywords e oldKeywords))
                      (\<lambda>_. ret oldKeywords)
                  else ret []))"

section \<open>Verification\<close>

definition handleStart :: "string \<Rightarrow> env \<Rightarrow> unit action" where
  "handleStart chatId e =
     then_do (getConfigOpt ''welcome_msg'' e) (\<lambda>welcomeMessage.
     then_do (getConfigOpt ''verif_q'' e) (\<lambda>verificationQuestion.
     then_do (telegramApi e (SendMessage chatId
                (case welcomeMessage of Some s \<Rightarrow> Plain s | None \<Rightarrow> DefaultWelcome)
                None None)) (\<lambda>_.
     then_do (telegramApi e (SendMessage chatId
                (case verificationQuestion of Some s \<Rightarrow> Plain s
                 | None \<Rightarrow> DefaultVerificationQuestion)
                None None)) (\<lambda>_.
     dbUserUpdate chatId [SetUserState PendingVerification]))))"

definition handleVerification :: "string \<Rightarrow> string \<Rightarrow> env \<Rightarrow> unit action" where
  "handleVerification chatId answer e =
     then_do (getConfig ''verif_a'' e ''3'') (\<lambda>expectedAnswer.
       if answer = expectedAnswer then
         then_do (telegramApi e (SendMessage chatId VerificationPassed None None)) (\<lambda>_.
           dbUserUpdate chatId [SetUserState Verified])
       else
         then_do (telegramApi e (SendMessage chatId VerificationFailed None None)) (\<lambda>_.
           ret ()))"

section \<open>Administrator menus\<close>

definition handleAdminConfigStart :: "string \<Rightarrow> env \<Rightarrow> unit action" where
  "handleAdminConfigStart chatId e =
     then_do (dbAdminStateDelete chatId) (\<lambda>_.
     then_do (telegramApi e (SendMessage chatId MainMenu None
                (Some [''config:menu:base'', ''config:menu:autoreply'', ''config:menu:keyword'',
                       ''config:menu:filter'', ''config:menu'']))) (\<lambda>_.
     ret ()))"

text \<open>The tail every submenu ends with: edit the message when a message id is given,
  send a new one when it is 0.\<close>

definition showMenu :: "env \<Rightarrow> string \<Rightarrow> int \<Rightarrow> tg_text \<Rightarrow> keyboard \<Rightarrow> unit action" where
  "showMenu e chatId messageId menuText menuKeyboard =
     then_do (if messageId \<noteq> 0
              then telegramApi e (EditMessageText chatId messageId menuText (Some menuKeyboard))
              else telegramApi e (SendMessage chatId menuText None (Some menuKeyboard)))
       (\<lambda>_. ret ())"

definition handleAdminBaseConfigMenu :: "string \<Rightarrow> int \<Rightarrow> env \<Rightarrow> unit action" where
  "handleAdminBaseConfigMenu chatId messageId e =
     then_do (getConfigOpt ''welcome_msg'' e) (\<lambda>welcomeMsg.
     then_do (getConfigOpt ''verif_q'' e) (\<lambda>verifQ.
     then_do (getConfig ''verif_a'' e ''3'') (\<lambda>verifA.
     showMenu e chatId messageId
       (BaseConfigMenu (map_option (\<lambda>s. take 30 (escapeHtml s)) welcomeMsg)
                       (map_option (\<lambda>s. take 30 (escapeHtml s)) verifQ)
                       (escapeHtml verifA))
       [''config:edit:welcome_msg'', ''config:edit:verif_q'', ''config:edit:verif_a'',
        ''config:menu''])))"

definition handleAdminAutoReplyMenu :: "string \<Rightarrow> int \<Rightarrow> env \<Rightarrow> unit action" where
  "handleAdminAutoReplyMenu chatId messageId e =
     then_do (getAutoReplyRules e) (\<lambda>rules.
     showMenu e chatId messageId (AutoReplyMenu (length rules))
       [''config:add:keyword_responses'', ''config:list:keyword_responses'', ''config:menu''])"

definition handleAdminKeywordBlockMenu :: "string \<Rightarrow> int \<Rightarrow> env \<Rightarrow> unit action" where
  "handleAdminKeywordBlockMenu chatId messageId e =
     then_do (getBlockKeywords e) (\<lambda>blockKeywords.
     then_do (getConfig ''block_threshold'' e ''5'') (\<lambda>blockThreshold.
     showMenu e chatId messageId
       (KeywordBlockMenu (length blockKeywords) (escapeHtml blockThreshold))
       [''config:add:block_keywords'', ''config:list:block_keywords'',
        ''config:edit:block_threshold'', ''config:menu'']))"

text \<open>The rule list: one delete button per rule, with the callback data
  \<open>config:delete:<key>:<deleteId>\<close>, then the back button.\<close>

definition deleteCallback :: "string \<Rightarrow> string \<Rightarrow> string" where
  "deleteCallback key deleteId = ''config:delete:'' @ key @ '':'' @ deleteId"

definition handleAdminRuleList :: "string \<Rightarrow> int \<Rightarrow> env \<Rightarrow> string \<Rightarrow> unit action" where
  "handleAdminRuleList chatId messageId e key =
     (if key = ''keyword_responses'' then
        then_do (getAutoReplyRules e) (\<lambda>rules.
        showMenu e chatId messageId
          (RuleListText key
             (map (\<lambda>r. (escapeHtml (take 15 (rule_keywords r)),
                         escapeHtml (take 20 (rule_response r)))) rules))
          (map (\<lambda>r. deleteCallback key (rule_id r)) rules @ [''config:menu:autoreply'']))
      else if key = ''block_keywords'' then
        then_do (getBlockKeywords e) (\<lambda>rules.
        showMenu e chatId messageId
          (RuleListText key (map (\<lambda>r. (escapeHtml (take 25 r), [])) rules))
          (map (\<lambda>r. deleteCallback key r) rules @ [''config:menu:keyword'']))
      else ret ())"

text \<open>The confirmation is answered with \<open>callback_query_id: chatId\<close>, as the source
  passes it.\<close>

definition handleAdminRuleDelete ::
  "string \<Rightarrow> int \<Rightarrow> env \<Rightarrow> string \<Rightarrow> string \<Rightarrow> unit action" where
  "handleAdminRuleDelete chatId messageId e key ident =
     (if key = ''keyword_responses'' then
        then_do (getAutoReplyRules e) (\<lambda>rules.
        then_do (dbConfigPut key (stringify_rules e (filter (\<lambda>r. rule_id r \<noteq> ident) rules))) (\<lambda>_.
        then_do (telegramApi e (AnswerCallbackQuery chatId (RuleDeleted key) False)) (\<lambda>_.
        handleAdminRuleList chatId messageId e key)))
      else if key = ''block_keywords'' then
        then_do (getBlockKeywords e) (\<lambda>rules.
        then_do (dbConfigPut key (stringify_keywords e (filter (\<lambda>k. k \<noteq> ident) rules))) (\<lambda>_.
        then_do (telegramApi e (AnswerCallbackQuery chatId (RuleDeleted key) False)) (\<lambda>_.
        handleAdminRuleList chatId messageId e key)))
      else ret ())"

text \<open>The seven switches, in the order the filter reads them.\<close>

record filters =
  allow_media :: bool
  allow_link :: bool
  allow_text :: bool
  allow_channel_forward :: bool
  allow_any_forward :: bool
  allow_audio_voice :: bool
  allow_sticker_gif :: bool

definition getSwitch :: "string \<Rightarrow> env \<Rightarrow> bool action" where
  "getSwitch key e = then_do (getConfig key e ''true'') (\<lambda>v. ret (toLowerCase v = ''true''))"

definition statusToCallback :: "string \<Rightarrow> bool \<Rightarrow> string" where
  "statusToCallback key status =
     ''config:toggle:'' @ key @ '':'' @ (if status then ''false'' else ''true'')"

definition handleAdminTypeBlockMenu :: "string \<Rightarrow> int \<Rightarrow> env \<Rightarrow> unit action" where
  "handleAdminTypeBlockMenu chatId messageId e =
     then_do (getSwitch ''enable_image_forwarding'' e) (\<lambda>mediaStatus.
     then_do (getSwitch ''enable_link_forwarding'' e) (\<lambda>linkStatus.
     then_do (getSwitch ''enable_text_forwarding'' e) (\<lambda>textStatus.
     then_do (getSwitch ''enable_channel_forwarding'' e) (\<lambda>channelForwardStatus.
     then_do (getSwitch ''enable_forward_forwarding'' e) (\<lambda>anyForwardStatus.
     then_do (getSwitch ''enable_audio_forwarding'' e) (\<lambda>audioVoiceStatus.
     then_do (getSwitch ''enable_sticker_forwarding'' e) (\<lambda>stickerGifStatus.
     showMenu e chatId messageId
       (TypeBlockMenu [anyForwardStatus, channelForwardStatus, audioVoiceStatus,
                       stickerGifStatus, mediaStatus, linkStatus, textStatus])
       [statusToCallback ''enable_forward_forwarding'' anyForwardStatus,
        statusToCallback ''enable_audio_forwarding'' audioVoiceStatus,
        statusToCallback ''enable_sticker_forwarding'' stickerGifStatus,
        statusToCallback ''enable_image_forwarding'' mediaStatus,
        statusToCallback ''enable_channel_forwarding'' channelForwardStatus,
        statusToCallback ''enable_link_forwarding'' linkStatus,
        statusToCallback ''enable_text_forwarding'' textStatus,
        ''config:menu''])))))))"

text \<open>\<open>JSON.parse\<close> comes first and may throw; then the \<open>/cancel\<close> test; only then are
  the fields of the state read, which throws for \<open>null\<close>.\<close>

definition handleAdminConfigInput :: "string \<Rightarrow> string \<Rightarrow> string \<Rightarrow> env \<Rightarrow> unit action" where
  "handleAdminConfigInput userId txt adminStateJson e =
     (let adminState = parse_admin_state e adminStateJson
      in if adminState = StateSyntaxError then throw
      else if toLowerCase txt = ''/cancel'' then
          then_do (dbAdminStateDelete userId) (\<lambda>_.
          then_do (telegramApi e (SendMessage userId EditCancelled None None)) (\<lambda>_.
          handleAdminConfigStart userId e))
      else case adminState of
        StateSyntaxError \<Rightarrow> throw
      | StateNull \<Rightarrow> throw
      | StateObject action key \<Rightarrow>
        if action = ''awaiting_input'' \<and> key \<noteq> [] then
          (let finalValue = (if key = ''verif_a'' \<or> key = ''block_threshold'' then trim txt else txt)
           in if key = ''block_keywords_add'' then
                then_do (getBlockKeywords e) (\<lambda>blockKeywords.
                let newKeyword = trim finalValue
                in then_do (if newKeyword \<noteq> [] \<and> newKeyword \<notin> set blockKeywords
                            then then_do (dbConfigPut ''block_keywords''
                                            (stringify_keywords e (blockKeywords @ [newKeyword])))
                                   (\<lambda>_. ret (KeywordAdded (escapeHtml newKeyword)))
                            else ret KeywordNotAdded) (\<lambda>successMsg.
                   then_do (dbAdminStateDelete userId) (\<lambda>_.
                   then_do (telegramApi e (SendMessage userId successMsg None None)) (\<lambda>_.
                   handleAdminKeywordBlockMenu userId 0 e))))
              else if key = ''keyword_responses_add'' then
                then_do (getAutoReplyRules e) (\<lambda>rules.
                then_do (case split finalValue ''==='' of
                           [p0, p1] \<Rightarrow>
                             if trim p0 \<noteq> [] \<and> trim p1 \<noteq> [] then
                               then_do (dbConfigPut ''keyword_responses''
                                          (stringify_rules e (rules @
                                             [\<lparr>rule_keywords = trim p0, rule_response = trim p1,
                                               rule_id = date_now e\<rparr>])))
                                 (\<lambda>_. ret (RuleAdded (escapeHtml (trim p0))))
                             else ret RuleNotAdded
                         | _ \<Rightarrow> ret RuleNotAdded) (\<lambda>successMsg.
                then_do (dbAdminStateDelete userId) (\<lambda>_.
                then_do (telegramApi e (SendMessage userId successMsg None None)) (\<lambda>_.
                handleAdminAutoReplyMenu userId 0 e))))
              else
                then_do (dbConfigPut key finalValue) (\<lambda>_.
                then_do (dbAdminStateDelete userId) (\<lambda>_.
                then_do (telegramApi e (SendMessage userId
                           (ConfigUpdated key
                              (if key = ''verif_a'' \<or> key = ''block_threshold''
                               then escapeHtml finalValue else []))
                           None None)) (\<lambda>_.
                if key = ''welcome_msg'' \<or> key = ''verif_q'' \<or> key = ''verif_a'' then
                  handleAdminBaseConfigMenu userId 0 e
                else if key = ''keyword_responses'' then
                  handleAdminAutoReplyMenu userId 0 e
                else if key = ''block_keywords'' \<or> key = ''block_threshold'' then
                  handleAdminKeywordBlockMenu userId 0 e
                else handleAdminConfigStart userId e))))
        else
          then_do (dbAdminStateDelete userId) (\<lambda>_.
          then_do (telegramApi e (SendMessage userId StateError None None)) (\<lambda>_.
          ret ())))"

section \<open>Relay to the user's topic\<close>

text \<open>\<open>createTopicForUser\<close>: create the thread, persist the binding and the profile,
  send the profile card into the thread. A \<open>createForumTopic\<close> answer without a thread
  id makes \<open>toString\<close> throw. The helper's own \<open>catch\<close> logs and rethrows.\<close>

definition createTopicForUser :: "env \<Rightarrow> message \<Rightarrow> bool \<Rightarrow> int action" where
  "createTopicForUser e m isBlocked =
     (let userDetails = sender m; userId = user_id userDetails
      in then_do (telegramApi e (CreateForumTopic (ADMIN_GROUP_ID e) (topicName userDetails)))
           (\<lambda>newTopic. case newTopic of
                TgTopic newTopicId \<Rightarrow>
                  then_do (dbUserUpdate userId
                             [SetTopicId (Some newTopicId),
                              SetUserInfo \<lparr>name = rawName userDetails,
                                           username = rawUsername userDetails,
                                           first_message_timestamp = message_date m\<rparr>]) (\<lambda>_.
                  then_do (telegramApi e (SendMessage (ADMIN_GROUP_ID e)
                             (infoCard userDetails (Some (message_date m)))
                             (Some newTopicId)
                             (Some (getInfoCardButtons userId isBlocked)))) (\<lambda>_.
                  ret newTopicId))
              | _ \<Rightarrow> throw))"

definition tryCopyToTopic :: "env \<Rightarrow> message \<Rightarrow> int \<Rightarrow> tg_result action" where
  "tryCopyToTopic e m targetTopicId =
     telegramApi e (CopyMessage (ADMIN_GROUP_ID e) (user_id (sender m)) (message_id m)
                      (Some targetTopicId))"

text \<open>The phases of \<open>handleRelayToTopic\<close>. The first two yield \<open>None\<close> / \<open>False\<close>
  when the function has returned early.\<close>

definition ensureTopic :: "env \<Rightarrow> message \<Rightarrow> user_row \<Rightarrow> int option action" where
  "ensureTopic e m user =
     (case topic_id user of
        Some topicId \<Rightarrow> ret (Some topicId)
      | None \<Rightarrow>
          try_catch
            (then_do (createTopicForUser e m (is_blocked user)) (\<lambda>t. ret (Some t)))
            (then_do (telegramApi e (SendMessage (user_id (sender m)) CreateTopicFailed None None))
               (\<lambda>_. ret None)))"

text \<open>The \<open>catch\<close> of the first copy: clear the binding, create a replacement thread,
  copy once more. A failed second copy is answered with the relay notice; whatever else
  throws in the block, that notice included, is answered with the re-creation notice.\<close>

definition recreateAndRetry :: "env \<Rightarrow> message \<Rightarrow> user_row \<Rightarrow> bool action" where
  "recreateAndRetry e m user =
     try_catch
       (then_do (dbUserUpdate (user_id (sender m)) [SetTopicId None]) (\<lambda>_.
        then_do (createTopicForUser e m (is_blocked user)) (\<lambda>newTopicId.
        try_catch
          (then_do (tryCopyToTopic e m newTopicId) (\<lambda>_. ret True))
          (then_do (telegramApi e (SendMessage (user_id (sender m)) RelayFailed None None))
             (\<lambda>_. ret False)))))
       (then_do (telegramApi e (SendMessage (user_id (sender m)) RecreateTopicFailed None None))
          (\<lambda>_. ret False))"

definition copyWithRetry :: "env \<Rightarrow> message \<Rightarrow> user_row \<Rightarrow> int \<Rightarrow> bool action" where
  "copyWithRetry e m user topicId =
     try_catch
       (then_do (tryCopyToTopic e m topicId) (\<lambda>_. ret True))
       (recreateAndRetry e m user)"

text \<open>The last step: a text message is stored for the tracking of edits.\<close>

definition storeMessageData :: "message \<Rightarrow> unit action" where
  "storeMessageData m =
     (case message_text m of
        None \<Rightarrow> ret ()
      | Some t \<Rightarrow>
          if t = [] then ret ()
          else dbMessageDataPut (user_id (sender m)) (message_id m)
                 \<lparr>data_text = t, data_date = message_date m\<rparr>)"

definition handleRelayToTopic :: "message \<Rightarrow> user_row \<Rightarrow> env \<Rightarrow> unit action" where
  "handleRelayToTopic m user e =
     then_do (ensureTopic e m user) (\<lambda>topic.
       case topic of
         None \<Rightarrow> ret ()
       | Some topicId \<Rightarrow>
           then_do (copyWithRetry e m user topicId) (\<lambda>copied.
             if \<not> copied then ret () else storeMessageData m))"

section \<open>Edited messages\<close>

text \<open>\<open>a || b\<close> on optional strings: the first that is present and non-empty.\<close>

definition truthy :: "string option \<Rightarrow> string option" where
  "truthy x = (case x of None \<Rightarrow> None | Some t \<Rightarrow> if t = [] then None else Some t)"

definition orElse :: "string option \<Rightarrow> string option \<Rightarrow> string option" where
  "orElse a b = (case truthy a of Some t \<Rightarrow> Some t | None \<Rightarrow> truthy b)"

definition handleRelayEditedMessage :: "message \<Rightarrow> env \<Rightarrow> unit action" where
  "handleRelayEditedMessage editedMessage e =
     (let userId = user_id (sender editedMessage)
      in then_do (dbUserGetOrCreate userId) (\<lambda>userData.
         case topic_id userData of
           None \<Rightarrow> ret ()
         | Some topicId \<Rightarrow>
             then_do (dbMessageDataGet userId (message_id editedMessage)) (\<lambda>storedData.
             then_do (case storedData of
                        None \<Rightarrow> ret ()
                      | Some d \<Rightarrow>
                          dbMessageDataPut userId (message_id editedMessage)
                            \<lparr>data_text =
                               (case orElse (message_text editedMessage) (caption editedMessage)
                                of Some t \<Rightarrow> t | None \<Rightarrow> []),
                             data_date = data_date d\<rparr>) (\<lambda>_.
             try_catch
               (then_do (telegramApi e (SendMessage (ADMIN_GROUP_ID e)
                          (EditNotification
                             (case storedData of None \<Rightarrow> None
                              | Some d \<Rightarrow> map_option escapeHtml (truthy (Some (data_text d))))
                             (case storedData of None \<Rightarrow> None | Some d \<Rightarrow> Some (data_date d))
                             (map_option escapeHtml
                                (orElse (message_text editedMessage) (caption editedMessage))))
                          (Some topicId) None)) (\<lambda>_. ret ()))
               (ret ())))))"

section \<open>Private messages: the gatekeeping pipeline\<close>

text \<open>\<open>message.text || ""\<close>.\<close>

definition textOf :: "message \<Rightarrow> string" where
  "textOf m = (case message_text m of Some t \<Rightarrow> t | None \<Rightarrow> [])"

text \<open>The keyword loop. The body of the loop is one \<open>try\<close> whose \<open>catch\<close> goes on with
  the next keyword; \<open>currentCount\<close> keeps the increments made before an exception. The
  result is \<open>True\<close> when the handler has returned inside the loop.\<close>

fun keywordLoop ::
  "env \<Rightarrow> string \<Rightarrow> string \<Rightarrow> int \<Rightarrow> int \<Rightarrow> string list \<Rightarrow> bool action" where
  "keywordLoop e chatId txt blockThreshold currentCount [] = ret False"
| "keywordLoop e chatId txt blockThreshold currentCount (keyword # rest) =
     (if \<not> regex_valid e keyword then
        keywordLoop e chatId txt blockThreshold currentCount rest
      else if regex_test e keyword txt then
        try_catch
          (then_do (dbUserUpdate chatId [SetBlockCount (currentCount + 1)]) (\<lambda>_.
             if currentCount + 1 \<ge> blockThreshold then
               then_do (dbUserUpdate chatId [SetIsBlocked True]) (\<lambda>_.
               then_do (telegramApi e (SendMessage chatId
                          (BlockNotification (currentCount + 1) blockThreshold) None None)) (\<lambda>_.
               then_do (telegramApi e (SendMessage chatId AutoBlockMessage None None)) (\<lambda>_.
               ret True)))
             else
               then_do (telegramApi e (SendMessage chatId
                          (BlockNotification (currentCount + 1) blockThreshold) None None)) (\<lambda>_.
               ret True)))
          (keywordLoop e chatId txt blockThreshold (currentCount + 1) rest)
      else keywordLoop e chatId txt blockThreshold currentCount rest)"

definition getBlockThreshold :: "env \<Rightarrow> int action" where
  "getBlockThreshold e =
     then_do (getConfig ''block_threshold'' e ''5'') (\<lambda>v. ret (orDefault (parseInt v) 5))"

definition getFilters :: "env \<Rightarrow> filters action" where
  "getFilters e =
     then_do (getSwitch ''enable_image_forwarding'' e) (\<lambda>media.
     then_do (getSwitch ''enable_link_forwarding'' e) (\<lambda>link.
     then_do (getSwitch ''enable_text_forwarding'' e) (\<lambda>txt.
     then_do (getSwitch ''enable_channel_forwarding'' e) (\<lambda>channel_forward.
     then_do (getSwitch ''enable_forward_forwarding'' e) (\<lambda>any_forward.
     then_do (getSwitch ''enable_audio_forwarding'' e) (\<lambda>audio_voice.
     then_do (getSwitch ''enable_sticker_forwarding'' e) (\<lambda>sticker_gif.
     ret \<lparr>allow_media = media, allow_link = link, allow_text = txt,
          allow_channel_forward = channel_forward, allow_any_forward = any_forward,
          allow_audio_voice = audio_voice, allow_sticker_gif = sticker_gif\<rparr>)))))))"

definition hasLinks :: "message \<Rightarrow> bool" where
  "hasLinks msg =
     (let ents = (case entities msg of Some es \<Rightarrow> es
                  | None \<Rightarrow> (case caption_entities msg of Some cs \<Rightarrow> cs | None \<Rightarrow> []))
      in \<exists>t \<in> set ents. t = ''url'' \<or> t = ''text_link'')"

text \<open>Checks 1 to 4, the \<open>if / else if\<close> chain on the kind of content.\<close>

definition categoryCheck :: "filters \<Rightarrow> message \<Rightarrow> filter_reason option" where
  "categoryCheck f m =
     (if forward_from m \<or> forward_from_chat m \<noteq> None then
        (if \<not> allow_any_forward f then Some ReasonForward
         else if forward_from_chat m = Some ''channel'' \<and> \<not> allow_channel_forward f
              then Some ReasonChannelForward
         else None)
      else if audio m \<or> voice m then
        (if \<not> allow_audio_voice f then Some ReasonAudioVoice else None)
      else if sticker m \<or> animation m then
        (if \<not> allow_sticker_gif f then Some ReasonStickerGif else None)
      else if photo m \<or> video m \<or> document m then
        (if \<not> allow_media f then Some ReasonMedia else None)
      else None)"

definition isPureText :: "message \<Rightarrow> bool" where
  "isPureText m =
     (truthy (message_text m) \<noteq> None \<and>
      \<not> photo m \<and> \<not> video m \<and> \<not> document m \<and>
      \<not> sticker m \<and> \<not> audio m \<and> \<not> voice m \<and>
      forward_from_chat m = None \<and> \<not> forward_from m \<and> \<not> animation m)"

text \<open>The whole filter: \<open>None\<close> is \<open>isForwardable\<close>, \<open>Some r\<close> is the \<open>filterReason\<close> of a
  message that is not. Check 5 (links) and check 6 (plain text) run only while the
  message is still forwardable.\<close>

definition contentFilter :: "filters \<Rightarrow> message \<Rightarrow> filter_reason option" where
  "contentFilter f m =
     (let r4 = categoryCheck f m;
          r5 = (if r4 = None \<and> hasLinks m \<and> \<not> allow_link f then Some ReasonLink else r4);
          r6 = (if r5 = None \<and> isPureText m \<and> \<not> allow_text f then Some ReasonPureText else r5)
      in r6)"

fun autoReplyLoop :: "env \<Rightarrow> string \<Rightarrow> string \<Rightarrow> rule list \<Rightarrow> bool action" where
  "autoReplyLoop e chatId txt [] = ret False"
| "autoReplyLoop e chatId txt (r # rest) =
     (if \<not> regex_valid e (rule_keywords r) then autoReplyLoop e chatId txt rest
      else if regex_test e (rule_keywords r) txt then
        try_catch
          (then_do (telegramApi e (SendMessage chatId (AutoReply (rule_response r)) None None))
             (\<lambda>_. ret True))
          (autoReplyLoop e chatId txt rest)
      else autoReplyLoop e chatId txt rest)"

text \<open>The branch of \<open>handlePrivateMessage\<close> for a verified user: keyword block, content
  filter, auto-reply, relay.\<close>

definition handleVerified :: "message \<Rightarrow> user_row \<Rightarrow> env \<Rightarrow> unit action" where
  "handleVerified m user e =
     (let chatId = chat_id m;
          txt = textOf m
      in then_do (getBlockKeywords e) (\<lambda>blockKeywords.
         then_do (getBlockThreshold e) (\<lambda>blockThreshold.
         then_do (if blockKeywords \<noteq> [] \<and> txt \<noteq> []
                  then keywordLoop e chatId txt blockThreshold (block_count user) blockKeywords
                  else ret False) (\<lambda>returned.
         if returned then ret ()
         else
           then_do (getFilters e) (\<lambda>fs.
           case contentFilter fs m of
             Some filterReason \<Rightarrow>
               then_do (telegramApi e (SendMessage chatId (FilterNotification filterReason)
                          None None)) (\<lambda>_. ret ())
           | None \<Rightarrow>
               then_do (getAutoReplyRules e) (\<lambda>autoResponseRules.
               then_do (if autoResponseRules \<noteq> [] \<and> txt \<noteq> []
                        then autoReplyLoop e chatId txt autoResponseRules
                        else ret False) (\<lambda>replied.
               if replied then ret () else handleRelayToTopic m user e)))))))"

definition handlePrivateMessage :: "message \<Rightarrow> env \<Rightarrow> unit action" where
  "handlePrivateMessage m e =
     (let chatId = chat_id m;
          txt = textOf m;
          userId = chatId;
          isAdmin = isAdminUser userId e
      in if txt = ''/start'' \<or> txt = ''/help'' then
           (if isAdmin then handleAdminConfigStart chatId e else handleStart chatId e)
         else
           then_do (dbUserGetOrCreate userId) (\<lambda>user.
           if is_blocked user then ret ()
           else
             then_do (if isAdmin then dbAdminStateGet userId else ret None) (\<lambda>adminStateJson.
             case adminStateJson of
               Some j \<Rightarrow> handleAdminConfigInput userId txt j e
             | None \<Rightarrow>
                 then_do (if isAdmin \<and> user_state user \<noteq> Verified
                          then then_do (dbUserUpdate userId [SetUserState Verified])
                                 (\<lambda>_. ret (user\<lparr>user_state := Verified\<rparr>))
                          else ret user) (\<lambda>user.
                 case user_state user of
                   PendingVerification \<Rightarrow> handleVerification chatId txt e
                 | Verified \<Rightarrow> handleVerified m user e
                 | New \<Rightarrow>
                     then_do (telegramApi e (SendMessage chatId PleaseStart None None))
                       (\<lambda>_. ret ())))))"

text \<open>A sequence of private messages, each handled as its own unit of work: what one
  handler throws does not reach the next.\<close>

fun handlePrivateMessages :: "env \<Rightarrow> message list \<Rightarrow> world \<Rightarrow> world" where
  "handlePrivateMessages e [] w = w"
| "handlePrivateMessages e (m # ms) w =
     handlePrivateMessages e ms (snd (handlePrivateMessage m e w))"

section \<open>Button presses\<close>

definition part :: "string list \<Rightarrow> nat \<Rightarrow> string" where
  "part parts i = (if i < length parts then parts ! i else [])"

definition userNameOf :: "user_row \<Rightarrow> string \<Rightarrow> string" where
  "userNameOf userData userId =
     (case user_info userData of Some i \<Rightarrow> name i | None \<Rightarrow> ''User '' @ userId)"

definition handlePinCard :: "callback_query \<Rightarrow> button_message \<Rightarrow> env \<Rightarrow> unit action" where
  "handlePinCard callbackQuery msg e =
     try_catch
       (then_do (telegramApi e (PinChatMessage (bm_chat_id msg) (bm_message_id msg)
                                  (bm_message_thread_id msg))) (\<lambda>_.
        then_do (telegramApi e (AnswerCallbackQuery (cq_id callbackQuery) CardPinned False))
          (\<lambda>_. ret ())))
       (then_do (telegramApi e (AnswerCallbackQuery (cq_id callbackQuery) PinFailed True))
          (\<lambda>_. ret ()))"

definition handleBlockUser :: "string \<Rightarrow> button_message \<Rightarrow> env \<Rightarrow> unit action" where
  "handleBlockUser userId msg e =
     try_catch
       (then_do (dbUserUpdate userId [SetIsBlocked True]) (\<lambda>_.
        then_do (dbUserGetOrCreate userId) (\<lambda>userData.
        then_do (telegramApi e (EditMessageReplyMarkup (bm_chat_id msg) (bm_message_id msg)
                                  (getInfoCardButtons userId True))) (\<lambda>_.
        then_do (telegramApi e (SendMessage (bm_chat_id msg)
                                  (BlockedConfirmation (userNameOf userData userId))
                                  (bm_message_thread_id msg) None)) (\<lambda>_.
        ret ())))))
       (ret ())"

definition handleUnblockUser :: "string \<Rightarrow> button_message \<Rightarrow> env \<Rightarrow> unit action" where
  "handleUnblockUser userId msg e =
     try_catch
       (then_do (dbUserUpdate userId [SetIsBlocked False, SetBlockCount 0]) (\<lambda>_.
        then_do (dbUserGetOrCreate userId) (\<lambda>userData.
        then_do (telegramApi e (EditMessageReplyMarkup (bm_chat_id msg) (bm_message_id msg)
                                  (getInfoCardButtons userId False))) (\<lambda>_.
        then_do (telegramApi e (SendMessage (bm_chat_id msg)
                                  (UnblockedConfirmation (userNameOf userData userId))
                                  (bm_message_thread_id msg) None)) (\<lambda>_.
        ret ())))))
       (ret ())"

text \<open>The \<open>config:\<close> family after the permission check: \<open>parts[1]\<close>, \<open>parts[2]\<close> and
  \<open>parts[3]\<close> of \<open>data.split(':')\<close>; a missing part is \<open>undefined\<close>, which the source only
  compares with literals or tests for truth, as the empty string here.\<close>

definition handleConfigCallback :: "callback_query \<Rightarrow> env \<Rightarrow> unit action" where
  "handleConfigCallback callbackQuery e =
     (let msg = cq_message callbackQuery;
          chatId = bm_chat_id msg;
          parts = split (cq_data callbackQuery) '':'';
          actionType = part parts 1;
          keyOrAction = part parts 2;
          val = part parts 3
      in then_do (telegramApi e (AnswerCallbackQuery (cq_id callbackQuery) Processing False)) (\<lambda>_.
         if actionType = ''menu'' then
           (if keyOrAction = ''base'' then handleAdminBaseConfigMenu chatId (bm_message_id msg) e
            else if keyOrAction = ''autoreply'' then
              handleAdminAutoReplyMenu chatId (bm_message_id msg) e
            else if keyOrAction = ''keyword'' then
              handleAdminKeywordBlockMenu chatId (bm_message_id msg) e
            else if keyOrAction = ''filter'' then
              handleAdminTypeBlockMenu chatId (bm_message_id msg) e
            else
              then_do (try_catch
                         (then_do (telegramApi e (DeleteMessage chatId (bm_message_id msg)))
                            (\<lambda>_. ret ()))
                         (ret ())) (\<lambda>_.
              handleAdminConfigStart chatId e))
         else if actionType = ''toggle'' \<and> keyOrAction \<noteq> [] \<and> val \<noteq> [] then
           then_do (dbConfigPut keyOrAction val) (\<lambda>_.
           handleAdminTypeBlockMenu chatId (bm_message_id msg) e)
         else if actionType = ''edit'' \<and> keyOrAction \<noteq> [] then
           then_do (dbAdminStatePut chatId
                      (stringify_admin_state e (''awaiting_input'', keyOrAction))) (\<lambda>_.
           if keyOrAction = ''welcome_msg'' \<or> keyOrAction = ''verif_q'' \<or>
              keyOrAction = ''verif_a'' \<or> keyOrAction = ''block_threshold''
           then then_do (telegramApi e (EditMessageText chatId (bm_message_id msg)
                           (EditPrompt keyOrAction) (Some [''config:menu'']))) (\<lambda>_. ret ())
           else ret ())
         else if actionType = ''add'' \<and> keyOrAction \<noteq> [] then
           then_do (dbAdminStatePut chatId
                      (stringify_admin_state e (''awaiting_input'', keyOrAction @ ''_add''))) (\<lambda>_.
           if keyOrAction = ''keyword_responses'' then
             then_do (telegramApi e (EditMessageText chatId (bm_message_id msg)
                        (AddPrompt keyOrAction) (Some [''config:menu:autoreply'']))) (\<lambda>_. ret ())
           else if keyOrAction = ''block_keywords'' then
             then_do (telegramApi e (EditMessageText chatId (bm_message_id msg)
                        (AddPrompt keyOrAction) (Some [''config:menu:keyword'']))) (\<lambda>_. ret ())
           else ret ())
         else if actionType = ''list'' \<and> keyOrAction \<noteq> [] then
           handleAdminRuleList chatId (bm_message_id msg) e keyOrAction
         else if actionType = ''delete'' \<and> keyOrAction \<noteq> [] \<and> val \<noteq> [] then
           handleAdminRuleDelete chatId (bm_message_id msg) e keyOrAction val
         else ret ()))"

text \<open>The other families are \<open>[action, userId] = data.split(':')\<close>. With no second part
  \<open>userId\<close> is \<open>undefined\<close>, which D1 refuses to bind: the statement throws inside the
  \<open>try\<close> of the block and unblock handlers before anything is written.\<close>

definition handleCallbackQuery :: "callback_query \<Rightarrow> env \<Rightarrow> unit action" where
  "handleCallbackQuery callbackQuery e =
     (let dat = cq_data callbackQuery; msg = cq_message callbackQuery
      in if startsWith dat ''config:'' then
           (if \<not> isAdminUser (cq_sender_id callbackQuery) e then
              then_do (telegramApi e (AnswerCallbackQuery (cq_id callbackQuery) NoPermission True))
                (\<lambda>_. ret ())
            else handleConfigCallback callbackQuery e)
         else if bm_chat_id msg \<noteq> ADMIN_GROUP_ID e then ret ()
         else
           (let parts = split dat '':'';
                action = part parts 0
            in if action = ''pin_card'' then handlePinCard callbackQuery msg e
               else
                 then_do (telegramApi e (AnswerCallbackQuery (cq_id callbackQuery)
                            (Executing (action = ''block'')) False)) (\<lambda>_.
                 if length parts < 2 then ret ()
                 else if action = ''block'' then handleBlockUser (part parts 1) msg e
                 else if action = ''unblock'' then handleUnblockUser (part parts 1) msg e
                 else ret ())))"

section \<open>What a configuration lookup yields\<close>

definition configured :: "env \<Rightarrow> world \<Rightarrow> string \<Rightarrow> string option" where
  "configured e w key =
     (case config w key of Some v \<Rightarrow> Some v | None \<Rightarrow> vars e (envKey key))"

definition configuredOr :: "env \<Rightarrow> world \<Rightarrow> string \<Rightarrow> string \<Rightarrow> string" where
  "configuredOr e w key d = (case configured e w key of Some v \<Rightarrow> v | None \<Rightarrow> d)"

text \<open>The threshold and the keyword list the keyword stage works with.\<close>

definition blockThresholdOf :: "env \<Rightarrow> world \<Rightarrow> int" where
  "blockThresholdOf e w = orDefault (parseInt (configuredOr e w ''block_threshold'' ''5'')) 5"

definition blockKeywordsOf :: "env \<Rightarrow> world \<Rightarrow> string list parsed" where
  "blockKeywordsOf e w = parse_keywords e (configuredOr e w ''block_keywords'' ''[]'')"

text \<open>The admin edit state a private message of \<open>userId\<close> is consumed by, if any.\<close>

definition pendingInput :: "env \<Rightarrow> world \<Rightarrow> string \<Rightarrow> string option" where
  "pendingInput e w userId =
     (if isAdminUser userId e then truthy (config w (admin_state_key userId)) else None)"

section \<open>Concrete scenarios\<close>

text \<open>A deployment for the examples: the admin group \<open>-100\<close>, no environment defaults,
  patterns that are literal words (a pattern matches the texts that contain it, ignoring
  case), the keyword lists the stored JSON may hold, and a transport, both given by the
  example.\<close>

fun occursIn :: "string \<Rightarrow> string \<Rightarrow> bool" where
  "occursIn p [] = (p = [])"
| "occursIn p (c # cs) = (startsWith (c # cs) p \<or> occursIn p cs)"

text \<open>\<open>JSON.stringify\<close> of a list of strings that need no escaping.\<close>

fun joinWith :: "string \<Rightarrow> string list \<Rightarrow> string" where
  "joinWith sep [] = []"
| "joinWith sep [x] = x"
| "joinWith sep (x # y # r) = x @ sep @ joinWith sep (y # r)"

definition json_of :: "string list \<Rightarrow> string" where
  "json_of ks = ''['' @ joinWith '','' (map (\<lambda>k. [CHR 0x22] @ k @ [CHR 0x22]) ks) @ '']''"

definition scenario_env ::
  "string option \<Rightarrow> (tg_call list \<Rightarrow> tg_call \<Rightarrow> tg_result) \<Rightarrow> string list list \<Rightarrow> env" where
  "scenario_env admins transport known =
     \<lparr>ADMIN_IDS = admins, ADMIN_GROUP_ID = ''-100'', vars = (\<lambda>_. None), api = transport,
      regex_valid = (\<lambda>_. True),
      regex_test = (\<lambda>p t. occursIn (toLowerCase p) (toLowerCase t)),
      regex_source = (\<lambda>p. p),
      parse_keywords = (\<lambda>s. case find (\<lambda>ks. json_of ks = s) known of
                               Some ks \<Rightarrow> Parsed ks | None \<Rightarrow> ParseError),
      stringify_keywords = json_of,
      parse_rules = (\<lambda>s. if s = ''[]'' then Parsed [] else ParseError),
      stringify_rules = (\<lambda>_. ''[]''),
      parse_admin_state = (\<lambda>_. StateSyntaxError),
      stringify_admin_state = (\<lambda>_. []),
      date_now = ''1700000000000'',
      fresh_id = (\<lambda>_. ''1700000000000.5'')\<rparr>"

text \<open>Transports: one that accepts every call (new threads get id 7), one that refuses
  every \<open>copyMessage\<close>.\<close>

definition all_ok :: "tg_call list \<Rightarrow> tg_call \<Rightarrow> tg_result" where
  "all_ok log c = (case c of CreateForumTopic _ _ \<Rightarrow> TgTopic 7 | _ \<Rightarrow> TgOk)"




definition alice :: tg_user where
  "alice = \<lparr>user_id = ''42'', first_name = Some ''Alice'', last_name = None,
            tg_username = Some ''alice''\<rparr>"

definition text_message :: "int \<Rightarrow> string \<Rightarrow> message" where
  "text_message mid t =
     \<lparr>chat_id = ''42'', sender = alice, message_id = mid, message_date = 1700000000,
      message_text = Some t, caption = None, forward_from = False, forward_from_chat = None,
      audio = False, voice = False, sticker = False, animation = False, photo = False,
      video = False, document = False, entities = None, caption_entities = None\<rparr>"

definition user_row_of :: "user_state \<Rightarrow> bool \<Rightarrow> int \<Rightarrow> int option \<Rightarrow> user_row" where
  "user_row_of st blocked cnt topic =
     \<lparr>user_state = st, is_blocked = blocked, block_count = cnt, topic_id = topic,
      user_info = None\<rparr>"

definition world_of :: "(string \<Rightarrow> string option) \<Rightarrow> user_row \<Rightarrow> world" where
  "world_of cfg row =
     \<lparr>config = cfg, users = [''42'' \<mapsto> row], messages = Map.empty, sent = []\<rparr>"

text \<open>A channel post with a link, a setting of the switches (the others allow), and a
  pressed button.\<close>

definition channel_post_with_link :: message where
  "channel_post_with_link =
     (text_message 1 ''see https://example.org'')
       \<lparr>forward_from_chat := Some ''channel'', entities := Some [''url'']\<rparr>"

definition switches :: "bool \<Rightarrow> bool \<Rightarrow> bool \<Rightarrow> bool \<Rightarrow> filters" where
  "switches any_forward channel_forward link txt =
     \<lparr>allow_media = True, allow_link = link, allow_text = txt,
      allow_channel_forward = channel_forward, allow_any_forward = any_forward,
      allow_audio_voice = True, allow_sticker_gif = True\<rparr>"

definition button_press :: "string \<Rightarrow> string \<Rightarrow> string \<Rightarrow> callback_query" where
  "button_press presser chat dat =
     \<lparr>cq_id = ''q1'', cq_data = dat,
      cq_message = \<lparr>bm_chat_id = chat, bm_message_id = 10, bm_message_thread_id = Some 5\<rparr>,
      cq_sender_id = presser\<rparr>"

text \<open>A world with one ledger entry; the calls of a relay whose two copies fail, and
  the row it leaves.\<close>

definition ledger_world :: world where
  "ledger_world =
     (world_of Map.empty (user_row_of Verified False 0 (Some 5)))
       \<lparr>messages := [(''42'', 1) \<mapsto> \<lparr>data_text = ''A'', data_date = 1700000000\<rparr>]\<rparr>"






text \<open>The keyword \<open>spam\<close> stored, a threshold value, a count, and a message that
  contains the keyword.\<close>

definition spam_env :: env where
  "spam_env = scenario_env None all_ok [[''spam'']]"

definition spam_world :: "string \<Rightarrow> int \<Rightarrow> world" where
  "spam_world threshold cnt =
     world_of [''block_keywords'' \<mapsto> json_of [''spam''], ''block_threshold'' \<mapsto> threshold]
       (user_row_of Verified False cnt (Some 5))"

definition help_world :: world where
  "help_world =
     world_of [''block_keywords'' \<mapsto> json_of [''help'']]
       (user_row_of Verified False 0 (Some 5))"

definition spam_message :: message where
  "spam_message = text_message 1 ''buy spam now''"

section \<open>Notions used in the statements\<close>

text \<open>The order \<open>new < pending_verification < verified\<close>.\<close>

fun rank :: "user_state \<Rightarrow> nat" where
  "rank New = 0"
| "rank PendingVerification = 1"
| "rank Verified = 2"

text \<open>The verification state of a user in a world; a user without a row is \<open>new\<close>, the
  state the row is created with.\<close>

definition stateOf :: "world \<Rightarrow> string \<Rightarrow> user_state" where
  "stateOf w u = (case users w u of None \<Rightarrow> New | Some r \<Rightarrow> user_state r)"

definition forward :: "world \<Rightarrow> world \<Rightarrow> bool" where
  "forward w w' = (\<forall>u. rank (stateOf w u) \<le> rank (stateOf w' u))"

definition forward_only :: "'a action \<Rightarrow> bool" where
  "forward_only m = (\<forall>w. forward w (snd (m w)))"

text \<open>The one step that moves a state back: a command of a user who is not an
  administrator and whose session is verified. A run never resets when no message of it
  is such a step in the world it arrives in.\<close>

definition isCommand :: "message \<Rightarrow> bool" where
  "isCommand m = (textOf m = ''/start'' \<or> textOf m = ''/help'')"

definition resetsVerified :: "env \<Rightarrow> message \<Rightarrow> world \<Rightarrow> bool" where
  "resetsVerified e m w =
     (\<not> isAdminUser (chat_id m) e \<and> isCommand m \<and> stateOf w (chat_id m) = Verified)"

fun neverResets :: "env \<Rightarrow> message list \<Rightarrow> world \<Rightarrow> bool" where
  "neverResets e [] w = True"
| "neverResets e (m # ms) w =
     (\<not> resetsVerified e m w \<and> neverResets e ms (snd (handlePrivateMessage m e w)))"


definition grows :: "'a action \<Rightarrow> bool" where
  "grows m = (\<forall>w. \<exists>r. sent (snd (m w)) = sent w @ r)"

named_theorems grows_intros

named_theorems fo_intros

section \<open>The verification state only moves forward\<close>

text \<open>What the lookups return.\<close>

lemma getConfigOpt_eq: "getConfigOpt key e w = (Returned (configured e w key), w)"
  by (simp add: getConfigOpt_def configured_def then_do_def dbConfigGet_def ret_def
           split: option.splits)

lemma getConfig_eq: "getConfig key e d w = (Returned (configuredOr e w key d), w)"
  by (simp add: getConfig_def configuredOr_def then_do_def getConfigOpt_eq ret_def)

lemma dbAdminStateGet_eq:
  "dbAdminStateGet u w = (Returned (truthy (config w (admin_state_key u))), w)"
  by (simp add: dbAdminStateGet_def then_do_def dbConfigGet_def ret_def truthy_def)

lemma forward_refl: "forward w w"
  by (simp add: forward_def)

lemma forward_trans: "forward a b \<Longrightarrow> forward b c \<Longrightarrow> forward a c"
  unfolding forward_def by (meson order_trans)

lemma forward_users_eq: "users w' = users w \<Longrightarrow> forward w w'"
  by (simp add: forward_def stateOf_def)

lemma fo_ret [fo_intros]: "forward_only (ret x)"
  by (simp add: forward_only_def ret_def forward_refl)

lemma fo_throw [fo_intros]: "forward_only throw"
  by (simp add: forward_only_def throw_def forward_refl)

lemma fo_then_do [fo_intros]:
  assumes "forward_only m" and "\<And>x. forward_only (f x)"
  shows "forward_only (then_do m f)"
proof -
  have "forward w (snd (then_do m f w))" for w
  proof (cases "m w")
    case (Pair r w')
    have step: "forward w w'" using assms(1) Pair by (auto simp: forward_only_def dest: spec[of _ w])
    show ?thesis
    proof (cases r)
      case (Returned x)
      have "forward w' (snd (f x w'))" using assms(2) by (simp add: forward_only_def)
      with step show ?thesis using Pair Returned
        by (auto simp: then_do_def intro: forward_trans)
    next
      case Thrown
      with step Pair show ?thesis by (simp add: then_do_def)
    qed
  qed
  then show ?thesis by (simp add: forward_only_def)
qed

lemma fo_try_catch [fo_intros]:
  assumes "forward_only m" and "forward_only h"
  shows "forward_only (try_catch m h)"
proof -
  have "forward w (snd (try_catch m h w))" for w
  proof (cases "m w")
    case (Pair r w')
    have step: "forward w w'" using assms(1) Pair by (auto simp: forward_only_def dest: spec[of _ w])
    show ?thesis
    proof (cases r)
      case (Returned x)
      with step Pair show ?thesis by (simp add: try_catch_def)
    next
      case Thrown
      have "forward w' (snd (h w'))" using assms(2) by (simp add: forward_only_def)
      with step show ?thesis using Pair Thrown
        by (auto simp: try_catch_def intro: forward_trans)
    qed
  qed
  then show ?thesis by (simp add: forward_only_def)
qed

lemma fo_if [fo_intros]:
  "(c \<Longrightarrow> forward_only a) \<Longrightarrow> (\<not> c \<Longrightarrow> forward_only b) \<Longrightarrow> forward_only (if c then a else b)"
  by simp

lemma fo_case_option [fo_intros]:
  "(x = None \<Longrightarrow> forward_only a) \<Longrightarrow> (\<And>y. x = Some y \<Longrightarrow> forward_only (b y))
   \<Longrightarrow> forward_only (case x of None \<Rightarrow> a | Some y \<Rightarrow> b y)"
  by (cases x) simp_all

lemma fo_case_parsed [fo_intros]:
  "forward_only a \<Longrightarrow> forward_only b \<Longrightarrow> (\<And>y. forward_only (c y))
   \<Longrightarrow> forward_only (case x of ParseError \<Rightarrow> a | NotArray \<Rightarrow> b | Parsed y \<Rightarrow> c y)"
  by (cases x) simp_all

lemma fo_case_prod [fo_intros]:
  "(\<And>a b. forward_only (f a b)) \<Longrightarrow> forward_only (case p of (a, b) \<Rightarrow> f a b)"
  by (cases p) simp

lemma fo_case_tg_result [fo_intros]:
  "forward_only a \<Longrightarrow> forward_only b \<Longrightarrow> (\<And>n. forward_only (c n))
   \<Longrightarrow> forward_only (case x of TgError \<Rightarrow> a | TgOk \<Rightarrow> b | TgTopic n \<Rightarrow> c n)"
  by (cases x) simp_all

lemma fo_case_user_state [fo_intros]:
  "forward_only a \<Longrightarrow> forward_only b \<Longrightarrow> forward_only c
   \<Longrightarrow> forward_only (case x of New \<Rightarrow> a | PendingVerification \<Rightarrow> b | Verified \<Rightarrow> c)"
  by (cases x) simp_all

lemma fo_telegramApi [fo_intros]: "forward_only (telegramApi e c)"
  by (auto simp: forward_only_def telegramApi_def Let_def split: tg_result.splits
           intro: forward_users_eq)

lemma fo_dbConfigGet [fo_intros]: "forward_only (dbConfigGet k)"
  by (simp add: forward_only_def dbConfigGet_def forward_refl)

lemma fo_dbConfigPut [fo_intros]: "forward_only (dbConfigPut k v)"
  by (simp add: forward_only_def dbConfigPut_def forward_users_eq)

lemma fo_dbAdminStateDelete [fo_intros]: "forward_only (dbAdminStateDelete u)"
  by (simp add: forward_only_def dbAdminStateDelete_def forward_users_eq)

lemma fo_dbMessageDataPut [fo_intros]: "forward_only (dbMessageDataPut u i d)"
  by (simp add: forward_only_def dbMessageDataPut_def forward_users_eq)

lemma fo_dbUserGetOrCreate [fo_intros]: "forward_only (dbUserGetOrCreate u)"
  by (auto simp: forward_only_def dbUserGetOrCreate_def forward_def stateOf_def default_user_def
           split: option.splits)

lemma rank_le_Verified: "rank s \<le> rank Verified"
  by (cases s) simp_all

lemma rank_apply_update:
  "(\<And>s. d = SetUserState s \<Longrightarrow> s = Verified)
   \<Longrightarrow> rank (user_state r) \<le> rank (user_state (apply_update d r))"
  by (cases d) (simp_all add: rank_le_Verified del: rank.simps)

lemma rank_fold_update:
  "(\<And>s. SetUserState s \<in> set data \<Longrightarrow> s = Verified)
   \<Longrightarrow> rank (user_state r) \<le> rank (user_state (fold apply_update data r))"
proof (induction data arbitrary: r)
  case Nil
  show ?case by simp
next
  case (Cons d ds)
  have a: "rank (user_state r) \<le> rank (user_state (apply_update d r))"
    by (rule rank_apply_update) (simp add: Cons.prems)
  have b: "rank (user_state (apply_update d r))
                 \<le> rank (user_state (fold apply_update ds (apply_update d r)))"
    by (rule Cons.IH) (simp add: Cons.prems)
  from a b show ?case by simp
qed


lemma fo_dbUserUpdate [fo_intros]:
  assumes "\<And>s. SetUserState s \<in> set data \<Longrightarrow> s = Verified"
  shows "forward_only (dbUserUpdate u data)"
proof -
  have "rank (stateOf w v) \<le> rank (stateOf (snd (dbUserUpdate u data w)) v)" for w v
    using rank_fold_update[OF assms]
    by (cases "users w u") (simp_all add: dbUserUpdate_def stateOf_def)
  then show ?thesis by (simp add: forward_only_def forward_def)
qed

lemma fo_dbAdminStateGet [fo_intros]: "forward_only (dbAdminStateGet u)"
  unfolding dbAdminStateGet_def by (intro fo_intros)

lemma fo_dbAdminStatePut [fo_intros]: "forward_only (dbAdminStatePut u j)"
  unfolding dbAdminStatePut_def by (intro fo_intros)

lemma fo_getConfigOpt [fo_intros]: "forward_only (getConfigOpt k e)"
  unfolding getConfigOpt_def by (intro fo_intros)

lemma fo_getConfig [fo_intros]: "forward_only (getConfig k e d)"
  unfolding getConfig_def by (intro fo_intros)

lemma fo_getSwitch [fo_intros]: "forward_only (getSwitch k e)"
  unfolding getSwitch_def by (intro fo_intros)

lemma fo_getAutoReplyRules [fo_intros]: "forward_only (getAutoReplyRules e)"
  unfolding getAutoReplyRules_def Let_def by (intro fo_intros)

lemma fo_getBlockKeywords [fo_intros]: "forward_only (getBlockKeywords e)"
  unfolding getBlockKeywords_def Let_def by (intro fo_intros)


lemma fo_handleVerification [fo_intros]: "forward_only (handleVerification c a e)"
  unfolding handleVerification_def by (intro fo_intros) simp

lemma fo_handleAdminConfigStart [fo_intros]: "forward_only (handleAdminConfigStart c e)"
  unfolding handleAdminConfigStart_def by (intro fo_intros)

lemma fo_showMenu [fo_intros]: "forward_only (showMenu e c i t k)"
  unfolding showMenu_def by (intro fo_intros)

lemma fo_handleAdminBaseConfigMenu [fo_intros]: "forward_only (handleAdminBaseConfigMenu c i e)"
  unfolding handleAdminBaseConfigMenu_def by (intro fo_intros)

lemma fo_handleAdminAutoReplyMenu [fo_intros]: "forward_only (handleAdminAutoReplyMenu c i e)"
  unfolding handleAdminAutoReplyMenu_def by (intro fo_intros)

lemma fo_handleAdminKeywordBlockMenu [fo_intros]: "forward_only (handleAdminKeywordBlockMenu c i e)"
  unfolding handleAdminKeywordBlockMenu_def by (intro fo_intros)

lemma fo_case_list2 [fo_intros]:
  "forward_only d \<Longrightarrow> (\<And>a b. forward_only (f a b))
   \<Longrightarrow> forward_only (case xs of [] \<Rightarrow> d | [a] \<Rightarrow> d | [a, b] \<Rightarrow> f a b | a # b # c # r \<Rightarrow> d)"
  by (auto split: list.splits)

lemma fo_case_admin_state [fo_intros]:
  "forward_only a \<Longrightarrow> forward_only b \<Longrightarrow> (\<And>x y. forward_only (c x y))
   \<Longrightarrow> forward_only (case st of StateSyntaxError \<Rightarrow> a | StateNull \<Rightarrow> b
                      | StateObject x y \<Rightarrow> c x y)"
  by (cases st) simp_all

lemma fo_handleAdminConfigInput [fo_intros]: "forward_only (handleAdminConfigInput u t j e)"
  unfolding handleAdminConfigInput_def Let_def by (intro fo_intros)

lemma fo_createTopicForUser [fo_intros]: "forward_only (createTopicForUser e m b)"
  unfolding createTopicForUser_def Let_def by (intro fo_intros) auto

lemma fo_tryCopyToTopic [fo_intros]: "forward_only (tryCopyToTopic e m t)"
  unfolding tryCopyToTopic_def by (intro fo_intros)

lemma fo_ensureTopic [fo_intros]: "forward_only (ensureTopic e m u)"
  unfolding ensureTopic_def by (intro fo_intros)

lemma fo_recreateAndRetry [fo_intros]: "forward_only (recreateAndRetry e m u)"
  unfolding recreateAndRetry_def by (intro fo_intros) auto

lemma fo_copyWithRetry [fo_intros]: "forward_only (copyWithRetry e m u t)"
  unfolding copyWithRetry_def by (intro fo_intros)

lemma fo_storeMessageData [fo_intros]: "forward_only (storeMessageData m)"
  unfolding storeMessageData_def by (intro fo_intros)

lemma fo_handleRelayToTopic [fo_intros]: "forward_only (handleRelayToTopic m u e)"
  unfolding handleRelayToTopic_def by (intro fo_intros)

lemma fo_keywordLoop [fo_intros]: "forward_only (keywordLoop e c t thr n ks)"
proof (induction ks arbitrary: n)
  case Nil
  show ?case by (simp add: fo_ret)
next
  case (Cons k ks)
  show ?case
    unfolding keywordLoop.simps by (intro fo_intros Cons.IH) auto
qed

lemma fo_autoReplyLoop [fo_intros]: "forward_only (autoReplyLoop e c t rs)"
proof (induction rs)
  case Nil
  show ?case by (simp add: fo_ret)
next
  case (Cons r rs)
  show ?case
    unfolding autoReplyLoop.simps by (intro fo_intros Cons.IH)
qed

lemma fo_getBlockThreshold [fo_intros]: "forward_only (getBlockThreshold e)"
  unfolding getBlockThreshold_def by (intro fo_intros)

lemma fo_getFilters [fo_intros]: "forward_only (getFilters e)"
  unfolding getFilters_def by (intro fo_intros)

lemma fo_handleVerified [fo_intros]: "forward_only (handleVerified m u e)"
  unfolding handleVerified_def Let_def by (intro fo_intros)

lemma fo_handlePrivateMessage:
  assumes "isAdminUser (chat_id m) e \<or>
           (textOf m \<noteq> ''/start'' \<and> textOf m \<noteq> ''/help'')"
  shows "forward_only (handlePrivateMessage m e)"
proof (cases "textOf m = ''/start'' \<or> textOf m = ''/help''")
  case True
  with assms have adm: "isAdminUser (chat_id m) e" by auto
  from True adm show ?thesis
    by (auto simp: handlePrivateMessage_def Let_def fo_handleAdminConfigStart)
next
  case False
  show ?thesis
    unfolding handlePrivateMessage_def Let_def if_not_P[OF False]
    by (intro fo_intros) auto
qed

lemma dbUserUpdate_pending_states:
  "stateOf (snd (dbUserUpdate c [SetUserState PendingVerification] w)) u = stateOf w u \<or>
   (u = c \<and> stateOf (snd (dbUserUpdate c [SetUserState PendingVerification] w)) u
              = PendingVerification)"
  by (cases "users w c") (auto simp: dbUserUpdate_def stateOf_def)

lemma users_telegramApi: "users (snd (telegramApi e c w)) = users w"
  by (simp add: telegramApi_def Let_def split: tg_result.split)

lemma stateOf_users: "users w' = users w \<Longrightarrow> stateOf w' u = stateOf w u"
  by (simp add: stateOf_def)

lemma handleStart_states:
  "stateOf (snd (handleStart c e w)) u = stateOf w u \<or>
   (u = c \<and> stateOf (snd (handleStart c e w)) u = PendingVerification)"
proof -
  let ?s1 = "SendMessage c (case configured e w ''welcome_msg'' of Some s \<Rightarrow> Plain s
                              | None \<Rightarrow> DefaultWelcome) None None"
  let ?s2 = "SendMessage c (case configured e w ''verif_q'' of Some s \<Rightarrow> Plain s
                              | None \<Rightarrow> DefaultVerificationQuestion) None None"
  obtain r1 w1 where a1: "telegramApi e ?s1 w = (r1, w1)" by (cases "telegramApi e ?s1 w")
  have u1: "users w1 = users w" using users_telegramApi[of e ?s1 w] a1 by simp
  have c1: "config w1 = config w" using a1
    by (auto simp: telegramApi_def Let_def split: tg_result.splits)
  obtain r2 w2 where a2: "telegramApi e ?s2 w1 = (r2, w2)" by (cases "telegramApi e ?s2 w1")
  have u2: "users w2 = users w" using users_telegramApi[of e ?s2 w1] a2 u1 by simp
  show ?thesis
  proof (cases r1)
    case Thrown
    then have "snd (handleStart c e w) = w1"
      using a1 by (simp add: handleStart_def then_do_def getConfigOpt_eq)
    then show ?thesis using u1 by (simp add: stateOf_def)
  next
    case (Returned x1)
    show ?thesis
    proof (cases r2)
      case Thrown
      then have "snd (handleStart c e w) = w2"
        using a1 a2 Returned by (simp add: handleStart_def then_do_def getConfigOpt_eq)
      then show ?thesis using u2 by (simp add: stateOf_def)
    next
      case (Returned x2)
      then have "snd (handleStart c e w) = snd (dbUserUpdate c [SetUserState PendingVerification] w2)"
        using a1 a2 \<open>r1 = Returned x1\<close> by (simp add: handleStart_def then_do_def getConfigOpt_eq)
      then show ?thesis
        using dbUserUpdate_pending_states[of c w2 u] stateOf_users[OF u2, of u] by auto
    qed
  qed
qed

lemma single_step:
  "rank (stateOf w u) \<le> rank (stateOf (snd (handlePrivateMessage m e w)) u) \<or>
   (u = chat_id m \<and> resetsVerified e m w \<and>
    stateOf (snd (handlePrivateMessage m e w)) u = PendingVerification)"
proof (cases "isAdminUser (chat_id m) e \<or> (textOf m \<noteq> ''/start'' \<and> textOf m \<noteq> ''/help'')")
  case True
  then have "forward_only (handlePrivateMessage m e)" by (rule fo_handlePrivateMessage)
  then show ?thesis by (simp add: forward_only_def forward_def)
next
  case False
  then have h: "handlePrivateMessage m e w = handleStart (chat_id m) e w"
    by (auto simp: handlePrivateMessage_def Let_def)
  from handleStart_states[of "chat_id m" e w u]
  show ?thesis
  proof
    assume "stateOf (snd (handleStart (chat_id m) e w)) u = stateOf w u"
    then show ?thesis by (simp add: h)
  next
    assume a: "u = chat_id m \<and> stateOf (snd (handleStart (chat_id m) e w)) u = PendingVerification"
    show ?thesis
    proof (cases "stateOf w u = Verified")
      case True
      with a False show ?thesis by (auto simp: h resetsVerified_def isCommand_def)
    next
      case nv: False
      then have "rank (stateOf w u) \<le> rank PendingVerification"
        by (cases "stateOf w u") simp_all
      moreover from a have "stateOf (snd (handleStart (chat_id m) e w)) u = PendingVerification"
        by (rule conjunct2)
      ultimately
      have "rank (stateOf w u) \<le> rank (stateOf (snd (handleStart (chat_id m) e w)) u)"
        by (simp only:)
      then show ?thesis by (simp add: h)
    qed
  qed
qed

lemma forward_neverResets:
  "neverResets e ms w \<Longrightarrow> forward w (handlePrivateMessages e ms w)"
proof (induction ms arbitrary: w)
  case Nil
  show ?case by (simp add: forward_refl)
next
  case (Cons m ms)
  have a: "forward w (snd (handlePrivateMessage m e w))"
    unfolding forward_def
  proof
    fix u
    from single_step[of w u m e] Cons.prems
    show "rank (stateOf w u) \<le> rank (stateOf (snd (handlePrivateMessage m e w)) u)" by auto
  qed
  have b: "forward (snd (handlePrivateMessage m e w))
             (handlePrivateMessages e ms (snd (handlePrivateMessage m e w)))"
    by (rule Cons.IH) (use Cons.prems in simp)
  from a b show ?case by (auto intro: forward_trans)
qed

text \<open>C1 (amended). For every user session and every inbound private message, the
  persisted verification state of the session moves forward along new,
  pending_verification, verified or stays, with one exception: a \<open>/start\<close> or \<open>/help\<close>
  sent by a user who is not an administrator and whose own session is verified moves
  that session back to pending_verification. Hence in every sequence of inbound private
  messages in which no such command arrives at a verified session the state only moves
  forward, and a verified session stays verified; the first \<open>/start\<close> of a new session and
  the forced verification of an administrator are such forward moves.\<close>

theorem verification_state_forward_only:
  "(rank (stateOf w u) \<le> rank (stateOf (snd (handlePrivateMessage m e w)) u) \<or>
    (u = chat_id m \<and> resetsVerified e m w \<and>
     stateOf (snd (handlePrivateMessage m e w)) u = PendingVerification)) \<and>
   (neverResets e ms w \<longrightarrow>
      rank (stateOf w u) \<le> rank (stateOf (handlePrivateMessages e ms w) u) \<and>
      (stateOf w u = Verified \<longrightarrow> stateOf (handlePrivateMessages e ms w) u = Verified))"
proof -
  have le: "rank (stateOf w u) \<le> rank (stateOf (handlePrivateMessages e ms w) u)"
    if "neverResets e ms w"
    using forward_neverResets[OF that] by (simp add: forward_def)
  have "stateOf (handlePrivateMessages e ms w) u = Verified"
    if "neverResets e ms w" and "stateOf w u = Verified"
    using le[OF that(1)] that(2) by (cases "stateOf (handlePrivateMessages e ms w) u") simp_all
  with le single_step[of w u m e] show ?thesis by blast
qed

theorem verification_state_forward_only_witness:
  "neverResets (scenario_env None all_ok [[]])
     [text_message 1 ''/start'', text_message 2 ''3'', text_message 3 ''hello'']
     (world_of Map.empty (user_row_of New False 0 None)) \<and>
   stateOf (world_of Map.empty (user_row_of New False 0 None)) ''42'' = New \<and>
   stateOf (handlePrivateMessages (scenario_env None all_ok [[]])
              [text_message 1 ''/start'', text_message 2 ''3'', text_message 3 ''hello'']
              (world_of Map.empty (user_row_of New False 0 None))) ''42'' = Verified \<and>
   rank (stateOf (world_of Map.empty (user_row_of New False 0 None)) ''42'')
     \<le> rank (stateOf (handlePrivateMessages (scenario_env None all_ok [[]])
              [text_message 1 ''/start'', text_message 2 ''3'', text_message 3 ''hello'']
              (world_of Map.empty (user_row_of New False 0 None))) ''42'') \<and>
   stateOf (handlePrivateMessages (scenario_env None all_ok [[]])
              [text_message 4 ''4'', text_message 5 ''hello'']
              (world_of Map.empty (user_row_of Verified False 0 (Some 5)))) ''42'' = Verified"
proof -
  let ?e = "scenario_env None all_ok [[]]"
  let ?ms = "[text_message 1 ''/start'', text_message 2 ''3'', text_message 3 ''hello'']"
  let ?w = "world_of Map.empty (user_row_of New False 0 None)"
  let ?ms2 = "[text_message 4 ''4'', text_message 5 ''hello'']"
  let ?w2 = "world_of Map.empty (user_row_of Verified False 0 (Some 5))"
  have n: "neverResets ?e ?ms ?w" by code_simp
  have s0: "stateOf ?w ''42'' = New" by code_simp
  have s3: "stateOf (handlePrivateMessages ?e ?ms ?w) ''42'' = Verified" by code_simp
  have le: "rank (stateOf ?w ''42'') \<le> rank (stateOf (handlePrivateMessages ?e ?ms ?w) ''42'')"
    using verification_state_forward_only[of ?w "''42''" "text_message 1 ''/start''" ?e ?ms] n
    by blast
  have n2: "neverResets ?e ?ms2 ?w2" by code_simp
  have v: "stateOf ?w2 ''42'' = Verified" by code_simp
  have keep: "stateOf (handlePrivateMessages ?e ?ms2 ?w2) ''42'' = Verified"
    using verification_state_forward_only[of ?w2 "''42''" "text_message 4 ''4''" ?e ?ms2] n2 v
    by blast
  from n s0 s3 le keep show ?thesis by blast
qed

text \<open>The claim as stated fails: a verified user who is not an administrator sends
  \<open>/start\<close>, every call succeeds, and the persisted state is pending_verification.\<close>

theorem start_reverts_verified_counterexample:
  "stateOf (world_of Map.empty (user_row_of Verified False 0 (Some 5))) ''42'' = Verified \<and>
   stateOf (handlePrivateMessages (scenario_env None all_ok [[]]) [text_message 3 ''/start'']
              (world_of Map.empty (user_row_of Verified False 0 (Some 5)))) ''42''
     = PendingVerification"
  by code_simp

section \<open>The block check\<close>

text \<open>C2 (amended). For every inbound private message whose text is neither \<open>/start\<close> nor
  \<open>/help\<close> and whose session has blocked = true, the block check fires and the result is
  drop: the handler returns with no Bot API call issued (no reply of any kind) and no
  table changed, so no later stage (administrator input, verification, keyword block,
  filter, auto-reply, forward) runs. The commands \<open>/start\<close> and \<open>/help\<close> are handled before
  the block check and are answered also for a blocked session.\<close>

theorem blocked_message_dropped:
  assumes "users w (chat_id m) = Some u" and "is_blocked u"
    and "textOf m \<noteq> ''/start''" and "textOf m \<noteq> ''/help''"
  shows "handlePrivateMessage m e w = (Returned (), w)"
  using assms
  by (simp add: handlePrivateMessage_def Let_def then_do_def dbUserGetOrCreate_def ret_def)

theorem blocked_message_dropped_witness:
  "handlePrivateMessage (text_message 1 ''hello'') (scenario_env None all_ok [[]])
     (world_of Map.empty (user_row_of Verified True 0 (Some 5)))
   = (Returned (), world_of Map.empty (user_row_of Verified True 0 (Some 5)))"
  by (rule blocked_message_dropped[where u = "user_row_of Verified True 0 (Some 5)"])
     (simp_all add: text_message_def world_of_def user_row_of_def textOf_def)

text \<open>The claim as stated fails: a blocked user sends \<open>/start\<close> and is sent the welcome
  message and the verification question.\<close>

theorem blocked_start_answered_counterexample:
  "is_blocked (user_row_of Verified True 0 (Some 5)) \<and>
   sent (snd (handlePrivateMessage (text_message 1 ''/start'') (scenario_env None all_ok [[]])
                (world_of Map.empty (user_row_of Verified True 0 (Some 5)))))
   = [SendMessage ''42'' DefaultWelcome None None,
      SendMessage ''42'' DefaultVerificationQuestion None None]"
  by code_simp

section \<open>Verification answers\<close>

text \<open>C4 (amended). For every session in state pending_verification that is not blocked
  and not an administrator's (an administrator is verified without an answer), and every
  answer text other than the two commands, verification handling compares the answer text
  as it was sent, without trimming, to the configured expected answer (D1 value, else
  \<open>VERIFICATION_ANSWER\<close>, else \<open>3\<close>) with a case-sensitive exact match: on a match the
  confirmation is sent and, once it is delivered, the state becomes verified; on a mismatch
  an error reply is sent and nothing persisted changes.\<close>

theorem verification_exact_match:
  assumes "users w (chat_id m) = Some u" and "user_state u = PendingVerification"
    and "\<not> is_blocked u" and "\<not> isAdminUser (chat_id m) e"
    and "textOf m \<noteq> ''/start''" and "textOf m \<noteq> ''/help''"
  shows "(textOf m = configuredOr e w ''verif_a'' ''3'' \<and>
          api e (sent w) (SendMessage (chat_id m) VerificationPassed None None) \<noteq> TgError
          \<longrightarrow> handlePrivateMessage m e w =
                (Returned (),
                 w\<lparr>sent := sent w @ [SendMessage (chat_id m) VerificationPassed None None],
                   users := (users w)(chat_id m \<mapsto> u\<lparr>user_state := Verified\<rparr>)\<rparr>)) \<and>
         (textOf m \<noteq> configuredOr e w ''verif_a'' ''3''
          \<longrightarrow> snd (handlePrivateMessage m e w) =
                w\<lparr>sent := sent w @ [SendMessage (chat_id m) VerificationFailed None None]\<rparr>)"
  using assms
  by (auto simp: handlePrivateMessage_def Let_def then_do_def dbUserGetOrCreate_def ret_def
        handleVerification_def getConfig_eq telegramApi_def dbUserUpdate_def
        split: tg_result.splits)


theorem verification_exact_match_witness:
  "handlePrivateMessage (text_message 1 ''3'') (scenario_env None all_ok [[]])
     (world_of Map.empty (user_row_of PendingVerification False 0 None))
   = (Returned (),
      (world_of Map.empty (user_row_of PendingVerification False 0 None))
       \<lparr>sent := [SendMessage ''42'' VerificationPassed None None],
        users := [''42'' \<mapsto> user_row_of Verified False 0 None]\<rparr>) \<and>
   snd (handlePrivateMessage (text_message 2 ''2'') (scenario_env None all_ok [[]])
     (world_of Map.empty (user_row_of PendingVerification False 0 None)))
   = (world_of Map.empty (user_row_of PendingVerification False 0 None))
       \<lparr>sent := [SendMessage ''42'' VerificationFailed None None]\<rparr>"
proof -
  let ?e = "scenario_env None all_ok [[]]"
  let ?u = "user_row_of PendingVerification False 0 None"
  let ?w = "world_of Map.empty ?u"
  have cfg: "configuredOr ?e ?w ''verif_a'' ''3'' = ''3''"
    by (simp add: configuredOr_def configured_def world_of_def scenario_env_def)
  have ok: "api ?e (sent ?w) (SendMessage ''42'' VerificationPassed None None) \<noteq> TgError"
    by (simp add: scenario_env_def all_ok_def)
  have adm: "\<not> isAdminUser ''42'' ?e"
    by (simp add: isAdminUser_def scenario_env_def)
  have a: "handlePrivateMessage (text_message 1 ''3'') ?e ?w
         = (Returned (), ?w\<lparr>sent := [SendMessage ''42'' VerificationPassed None None],
                              users := [''42'' \<mapsto> user_row_of Verified False 0 None]\<rparr>)"
    using verification_exact_match[of ?w "text_message 1 ''3''" ?u ?e] cfg ok adm
    by (simp add: text_message_def textOf_def world_of_def user_row_of_def)
  have b: "snd (handlePrivateMessage (text_message 2 ''2'') ?e ?w)
         = ?w\<lparr>sent := [SendMessage ''42'' VerificationFailed None None]\<rparr>"
    using verification_exact_match[of ?w "text_message 2 ''2''" ?u ?e] cfg adm
    by (simp add: text_message_def textOf_def world_of_def user_row_of_def)
  from a b show ?thesis by simp
qed

text \<open>The claim as stated fails: the expected answer with a leading space is rejected,
  although its trimmed text equals the expected answer.\<close>

theorem untrimmed_answer_rejected_counterexample:
  "trim '' 3'' = configuredOr (scenario_env None all_ok [[]])
                   (world_of Map.empty (user_row_of PendingVerification False 0 None))
                   ''verif_a'' ''3'' \<and>
   stateOf (snd (handlePrivateMessage (text_message 1 '' 3'') (scenario_env None all_ok [[]])
                   (world_of Map.empty (user_row_of PendingVerification False 0 None)))) ''42''
     = PendingVerification \<and>
   sent (snd (handlePrivateMessage (text_message 1 '' 3'') (scenario_env None all_ok [[]])
                (world_of Map.empty (user_row_of PendingVerification False 0 None))))
     = [SendMessage ''42'' VerificationFailed None None]"
  by code_simp

section \<open>The content-type filter\<close>

text \<open>C6 (amended). The content-type filter applies at most one category check, chosen
  with the fixed precedence forwarded > audio/voice > sticker/animation > media >
  plain-text (a message with none of these contents and no text gets no category check).
  The forwarded, audio/voice, sticker/animation and media checks run before the link
  check; the plain-text check runs after the link check. A message that is both a
  channel-forwarded post and contains a link, with any_forward enabled, channel_forward
  disabled and links enabled, is dropped with the channel-forward reason (not the link
  reason).\<close>

theorem content_filter_order:
  "contentFilter f m =
     (if forward_from m \<or> forward_from_chat m \<noteq> None then
        (if \<not> allow_any_forward f then Some ReasonForward
         else if forward_from_chat m = Some ''channel'' \<and> \<not> allow_channel_forward f
              then Some ReasonChannelForward
         else if hasLinks m \<and> \<not> allow_link f then Some ReasonLink else None)
      else if audio m \<or> voice m then
        (if \<not> allow_audio_voice f then Some ReasonAudioVoice
         else if hasLinks m \<and> \<not> allow_link f then Some ReasonLink else None)
      else if sticker m \<or> animation m then
        (if \<not> allow_sticker_gif f then Some ReasonStickerGif
         else if hasLinks m \<and> \<not> allow_link f then Some ReasonLink else None)
      else if photo m \<or> video m \<or> document m then
        (if \<not> allow_media f then Some ReasonMedia
         else if hasLinks m \<and> \<not> allow_link f then Some ReasonLink else None)
      else if hasLinks m \<and> \<not> allow_link f then Some ReasonLink
      else if truthy (message_text m) \<noteq> None \<and> \<not> allow_text f then Some ReasonPureText
      else None) \<and>
   (forward_from_chat m = Some ''channel'' \<and> hasLinks m \<and> allow_any_forward f \<and>
    \<not> allow_channel_forward f \<and> allow_link f
    \<longrightarrow> contentFilter f m = Some ReasonChannelForward)"
  by (simp add: contentFilter_def categoryCheck_def isPureText_def Let_def)

theorem content_filter_order_witness:
  "contentFilter (switches True False True True) channel_post_with_link
   = Some ReasonChannelForward"
proof -
  have "forward_from_chat channel_post_with_link = Some ''channel'' \<and>
        hasLinks channel_post_with_link \<and> allow_any_forward (switches True False True True) \<and>
        \<not> allow_channel_forward (switches True False True True) \<and>
        allow_link (switches True False True True)"
    by (simp add: channel_post_with_link_def text_message_def hasLinks_def switches_def)
  with content_filter_order[of "switches True False True True" channel_post_with_link]
  show ?thesis by blast
qed

text \<open>The claim as stated fails for the plain-text category: a plain text with a link,
  with plain text and links both disabled, is dropped with the link reason, so the link
  check ran before the category check.\<close>

theorem link_before_plain_text_counterexample:
  "isPureText ((text_message 1 ''see https://example.org'')\<lparr>entities := Some [''url'']\<rparr>) \<and>
   hasLinks ((text_message 1 ''see https://example.org'')\<lparr>entities := Some [''url'']\<rparr>) \<and>
   \<not> allow_text (switches True True False False) \<and>
   \<not> allow_link (switches True True False False) \<and>
   contentFilter (switches True True False False)
     ((text_message 1 ''see https://example.org'')\<lparr>entities := Some [''url'']\<rparr>)
   = Some ReasonLink"
  by (simp add: contentFilter_def categoryCheck_def isPureText_def hasLinks_def Let_def
        switches_def text_message_def truthy_def)

section \<open>Callback data\<close>

text \<open>Encoding and decoding agree when neither the key nor the identity contains a
  colon.\<close>

lemma split_from_plain:
  "CHR '':'' \<notin> set a \<Longrightarrow> split_from '':'' acc a = [rev acc @ a]"
  by (induction a arbitrary: acc) auto

lemma split_from_colon:
  "CHR '':'' \<notin> set a \<Longrightarrow>
   split_from '':'' acc (a @ CHR '':'' # b) = (rev acc @ a) # split_from '':'' [] b"
  by (induction a arbitrary: acc) auto

lemma delete_callback_roundtrip:
  assumes "CHR '':'' \<notin> set key" and "CHR '':'' \<notin> set ident"
  shows "split (deleteCallback key ident) '':'' = [''config'', ''delete'', key, ident]"
proof -
  have tail: "split_from '':'' [] (key @ CHR '':'' # ident) = [key, ident]"
    using assms by (simp add: split_from_colon split_from_plain)
  then show ?thesis
    by (simp add: split_def deleteCallback_def)
qed

text \<open>C8 (the code departs from the claim). The rule list encodes the delete button of
  the block keyword \<open>a:b\<close> as \<open>config:delete:block_keywords:a:b\<close>; the callback handler
  splits the data on \<open>:\<close> and takes the fourth piece, \<open>a\<close>, as the identity. With the
  keywords \<open>a:b\<close> and \<open>a\<close> stored, pressing the delete button of \<open>a:b\<close> deletes \<open>a\<close> and
  keeps \<open>a:b\<close>.\<close>

theorem delete_button_removes_other_keyword:
  "sent (snd (handleAdminRuleList ''1'' 10
           (scenario_env (Some ''1'') all_ok [[''a:b'', ''a''], [''a:b'']]) ''block_keywords''
           (world_of [''block_keywords'' \<mapsto> json_of [''a:b'', ''a'']]
              (user_row_of Verified False 0 None))))
   = [EditMessageText ''1'' 10
        (RuleListText ''block_keywords'' [(''a:b'', []), (''a'', [])])
        (Some [''config:delete:block_keywords:a:b'', ''config:delete:block_keywords:a'',
               ''config:menu:keyword''])] \<and>
   part (split ''config:delete:block_keywords:a:b'' '':'') 3 = ''a'' \<and>
   config (snd (handleCallbackQuery
                  (button_press ''1'' ''1'' ''config:delete:block_keywords:a:b'')
                  (scenario_env (Some ''1'') all_ok [[''a:b'', ''a''], [''a:b'']])
                  (world_of [''block_keywords'' \<mapsto> json_of [''a:b'', ''a'']]
                     (user_row_of Verified False 0 None)))) ''block_keywords''
   = Some (json_of [''a:b''])"
  by code_simp

text \<open>C9 (amended). A callback query of the \<open>config\<close> family whose sender is not an
  administrator is rejected: the only effect is the alert \<open>answerCallbackQuery\<close> with
  \<open>show_alert\<close>, and no table changes. The \<open>block\<close>, \<open>unblock\<close> and \<open>pin_card\<close> families are
  not gated by the sender but by the chat of the pressed button: outside the admin group
  the query is ignored without any call or change; and whatever the chat, what the handler
  does for these families does not depend on who pressed the button, so inside the admin
  group it is carried out for every sender.\<close>

theorem non_admin_callback_rejected:
  "(startsWith (cq_data q) ''config:'' \<and> \<not> isAdminUser (cq_sender_id q) e \<longrightarrow>
      snd (handleCallbackQuery q e w)
      = w\<lparr>sent := sent w @ [AnswerCallbackQuery (cq_id q) NoPermission True]\<rparr>) \<and>
   (\<not> startsWith (cq_data q) ''config:'' \<and> bm_chat_id (cq_message q) \<noteq> ADMIN_GROUP_ID e \<longrightarrow>
      handleCallbackQuery q e w = (Returned (), w)) \<and>
   (\<not> startsWith (cq_data q) ''config:'' \<longrightarrow>
      handleCallbackQuery (q\<lparr>cq_sender_id := anyone\<rparr>) e w = handleCallbackQuery q e w)"
  by (auto simp: handleCallbackQuery_def handlePinCard_def Let_def then_do_def telegramApi_def
        ret_def split: tg_result.splits)

theorem non_admin_callback_rejected_witness:
  "snd (handleCallbackQuery (button_press ''999'' ''999'' ''config:toggle:enable_text_forwarding:false'')
          (scenario_env (Some ''1'') all_ok [[]])
          (world_of Map.empty (user_row_of Verified False 0 (Some 5))))
   = (world_of Map.empty (user_row_of Verified False 0 (Some 5)))
       \<lparr>sent := [AnswerCallbackQuery ''q1'' NoPermission True]\<rparr> \<and>
   handleCallbackQuery (button_press ''999'' ''999'' ''block:42'')
          (scenario_env (Some ''1'') all_ok [[]])
          (world_of Map.empty (user_row_of Verified False 0 (Some 5)))
   = (Returned (), world_of Map.empty (user_row_of Verified False 0 (Some 5)))"
proof -
  let ?e = "scenario_env (Some ''1'') all_ok [[]]"
  let ?w = "world_of Map.empty (user_row_of Verified False 0 (Some 5))"
  let ?q1 = "button_press ''999'' ''999'' ''config:toggle:enable_text_forwarding:false''"
  let ?q2 = "button_press ''999'' ''999'' ''block:42''"
  have adm: "\<not> isAdminUser ''999'' ?e"
    by (simp add: isAdminUser_def scenario_env_def split_def trim_def isWhiteSpace_def)
  have h1: "startsWith (cq_data ?q1) ''config:'' \<and> \<not> isAdminUser (cq_sender_id ?q1) ?e"
    using adm by (simp add: button_press_def startsWith_def)
  have h2: "\<not> startsWith (cq_data ?q2) ''config:'' \<and>
            bm_chat_id (cq_message ?q2) \<noteq> ADMIN_GROUP_ID ?e"
    by (simp add: button_press_def startsWith_def scenario_env_def)
  from non_admin_callback_rejected[of ?q1 ?e ?w] h1
  have a: "snd (handleCallbackQuery ?q1 ?e ?w)
           = ?w\<lparr>sent := sent ?w @ [AnswerCallbackQuery (cq_id ?q1) NoPermission True]\<rparr>"
    by blast
  from non_admin_callback_rejected[of ?q2 ?e ?w] h2
  have b: "handleCallbackQuery ?q2 ?e ?w = (Returned (), ?w)"
    by blast
  from a b show ?thesis by (simp add: button_press_def world_of_def)
qed

text \<open>The claim as stated fails: a member of the admin group who is not an administrator
  presses the block button, and the user is blocked.\<close>

theorem non_admin_blocks_in_group_counterexample:
  "\<not> isAdminUser ''999'' (scenario_env (Some ''1'') all_ok [[]]) \<and>
   map_option is_blocked (users (world_of Map.empty (user_row_of Verified False 0 (Some 5))) ''42'')
     = Some False \<and>
   map_option is_blocked
     (users (snd (handleCallbackQuery (button_press ''999'' ''-100'' ''block:42'')
                    (scenario_env (Some ''1'') all_ok [[]])
                    (world_of Map.empty (user_row_of Verified False 0 (Some 5))))) ''42'')
     = Some True"
  by code_simp

section \<open>Edited messages and the ledger\<close>

text \<open>C7. For a user with a bound thread and an edit of message M with the new non-empty
  text B: given the ledger entry \<open>{text: A, sentAt: T}\<close> for M with A non-empty, the thread
  is sent the notification reporting the original text A at time T together with the new
  text B (both HTML-escaped), and afterwards the ledger entry for M is \<open>{text: B, sentAt:
  T}\<close>; with no ledger entry the notification reports the original content and time as
  unavailable, still carries the new content, is still sent to the thread, and no entry is
  created. The handler returns normally whether or not the notification is delivered.\<close>

theorem edit_reconciliation:
  assumes "users w (user_id (sender m)) = Some u" and "topic_id u = Some t"
    and "message_text m = Some b" and "b \<noteq> []"
  shows "(messages w (user_id (sender m), message_id m) = Some \<lparr>data_text = a, data_date = T\<rparr> \<and>
          a \<noteq> [] \<longrightarrow>
            handleRelayEditedMessage m e w =
              (Returned (),
               w\<lparr>messages := (messages w)((user_id (sender m), message_id m) \<mapsto>
                                 \<lparr>data_text = b, data_date = T\<rparr>),
                 sent := sent w @
                   [SendMessage (ADMIN_GROUP_ID e)
                      (EditNotification (Some (escapeHtml a)) (Some T) (Some (escapeHtml b)))
                      (Some t) None]\<rparr>)) \<and>
         (messages w (user_id (sender m), message_id m) = None \<longrightarrow>
            handleRelayEditedMessage m e w =
              (Returned (),
               w\<lparr>sent := sent w @
                   [SendMessage (ADMIN_GROUP_ID e)
                      (EditNotification None None (Some (escapeHtml b))) (Some t) None]\<rparr>))"
  using assms
  by (auto simp: handleRelayEditedMessage_def Let_def then_do_def try_catch_def ret_def
        dbUserGetOrCreate_def dbMessageDataGet_def dbMessageDataPut_def telegramApi_def
        orElse_def truthy_def split: tg_result.splits)

theorem edit_reconciliation_witness:
  "handleRelayEditedMessage (text_message 1 ''B'') (scenario_env None all_ok [[]]) ledger_world =
     (Returned (),
      ledger_world\<lparr>messages := [(''42'', 1) \<mapsto> \<lparr>data_text = ''B'', data_date = 1700000000\<rparr>],
                   sent := [SendMessage ''-100''
                              (EditNotification (Some ''A'') (Some 1700000000) (Some ''B''))
                              (Some 5) None]\<rparr>) \<and>
   handleRelayEditedMessage (text_message 2 ''B'') (scenario_env None all_ok [[]]) ledger_world =
     (Returned (),
      ledger_world\<lparr>sent := [SendMessage ''-100''
                              (EditNotification None None (Some ''B'')) (Some 5) None]\<rparr>)"
proof -
  let ?e = "scenario_env None all_ok [[]]"
  let ?u = "user_row_of Verified False 0 (Some 5)"
  have esc: "escapeHtml ''A'' = ''A''" "escapeHtml ''B'' = ''B''"
    by (simp_all add: escapeHtml_def replaceAllChar_def)
  have grp: "ADMIN_GROUP_ID ?e = ''-100''" by (simp add: scenario_env_def)
  have a: "handleRelayEditedMessage (text_message 1 ''B'') ?e ledger_world =
     (Returned (),
      ledger_world\<lparr>messages := [(''42'', 1) \<mapsto> \<lparr>data_text = ''B'', data_date = 1700000000\<rparr>],
                   sent := [SendMessage ''-100''
                              (EditNotification (Some ''A'') (Some 1700000000) (Some ''B''))
                              (Some 5) None]\<rparr>)"
    using edit_reconciliation[of ledger_world "text_message 1 ''B''" ?u 5 "''B''" "''A''"
            1700000000 ?e] esc grp
    by (simp add: ledger_world_def world_of_def text_message_def alice_def user_row_of_def)
  have b: "handleRelayEditedMessage (text_message 2 ''B'') ?e ledger_world =
     (Returned (),
      ledger_world\<lparr>sent := [SendMessage ''-100''
                              (EditNotification None None (Some ''B'')) (Some 5) None]\<rparr>)"
    using edit_reconciliation[of ledger_world "text_message 2 ''B''" ?u 5 "''B''" "''A''"
            1700000000 ?e] esc grp
    by (simp add: ledger_world_def world_of_def text_message_def alice_def user_row_of_def)
  from a b show ?thesis by simp
qed

section \<open>Thread invalidation and the single retry\<close>

text \<open>Every action of the relay only adds calls to the log.\<close>

lemma grows_ret [grows_intros]: "grows (ret x)"
  by (simp add: grows_def ret_def)

lemma grows_throw [grows_intros]: "grows throw"
  by (simp add: grows_def throw_def)

lemma grows_then_do [grows_intros]:
  assumes "grows m" and "\<And>x. grows (f x)"
  shows "grows (then_do m f)"
proof -
  have "\<exists>r. sent (snd (then_do m f w)) = sent w @ r" for w
  proof (cases "m w")
    case (Pair o1 w1)
    from assms(1) obtain r1 where r1: "sent w1 = sent w @ r1"
      using Pair by (auto simp: grows_def dest: spec[of _ w])
    show ?thesis
    proof (cases o1)
      case (Returned x)
      from assms(2)[of x] obtain r2 where "sent (snd (f x w1)) = sent w1 @ r2"
        by (auto simp: grows_def)
      with r1 Pair Returned show ?thesis by (simp add: then_do_def)
    next
      case Thrown
      with r1 Pair show ?thesis by (simp add: then_do_def)
    qed
  qed
  then show ?thesis by (simp add: grows_def)
qed

lemma grows_try_catch [grows_intros]:
  assumes "grows m" and "grows h"
  shows "grows (try_catch m h)"
proof -
  have "\<exists>r. sent (snd (try_catch m h w)) = sent w @ r" for w
  proof (cases "m w")
    case (Pair o1 w1)
    from assms(1) obtain r1 where r1: "sent w1 = sent w @ r1"
      using Pair by (auto simp: grows_def dest: spec[of _ w])
    show ?thesis
    proof (cases o1)
      case (Returned x)
      with r1 Pair show ?thesis by (simp add: try_catch_def)
    next
      case Thrown
      from assms(2) obtain r2 where "sent (snd (h w1)) = sent w1 @ r2"
        by (auto simp: grows_def)
      with r1 Pair Thrown show ?thesis by (simp add: try_catch_def)
    qed
  qed
  then show ?thesis by (simp add: grows_def)
qed

lemma grows_if [grows_intros]:
  "(c \<Longrightarrow> grows a) \<Longrightarrow> (\<not> c \<Longrightarrow> grows b) \<Longrightarrow> grows (if c then a else b)"
  by simp

lemma grows_case_option [grows_intros]:
  "grows a \<Longrightarrow> (\<And>y. grows (b y)) \<Longrightarrow> grows (case x of None \<Rightarrow> a | Some y \<Rightarrow> b y)"
  by (cases x) simp_all

lemma grows_case_tg_result [grows_intros]:
  "grows a \<Longrightarrow> grows b \<Longrightarrow> (\<And>n. grows (c n))
   \<Longrightarrow> grows (case x of TgError \<Rightarrow> a | TgOk \<Rightarrow> b | TgTopic n \<Rightarrow> c n)"
  by (cases x) simp_all

lemma grows_telegramApi [grows_intros]: "grows (telegramApi e c)"
  by (simp add: grows_def telegramApi_def Let_def split: tg_result.split)

lemma grows_dbUserUpdate [grows_intros]: "grows (dbUserUpdate u d)"
  by (simp add: grows_def dbUserUpdate_def split: option.split)

lemma grows_dbMessageDataPut [grows_intros]: "grows (dbMessageDataPut u i d)"
  by (simp add: grows_def dbMessageDataPut_def)

lemma grows_createTopicForUser [grows_intros]: "grows (createTopicForUser e m b)"
  unfolding createTopicForUser_def Let_def by (intro grows_intros)

lemma grows_tryCopyToTopic [grows_intros]: "grows (tryCopyToTopic e m t)"
  unfolding tryCopyToTopic_def by (intro grows_intros)

lemma grows_recreateAndRetry [grows_intros]: "grows (recreateAndRetry e m u)"
  unfolding recreateAndRetry_def by (intro grows_intros)








section \<open>Keyword blocking\<close>

lemma getBlockKeywords_parsed:
  "blockKeywordsOf e w = Parsed ks \<Longrightarrow> getBlockKeywords e w = (Returned ks, w)"
  by (simp add: getBlockKeywords_def blockKeywordsOf_def then_do_def getConfig_eq ret_def)

lemma getBlockThreshold_eq: "getBlockThreshold e w = (Returned (blockThresholdOf e w), w)"
  by (simp add: getBlockThreshold_def blockThresholdOf_def then_do_def getConfig_eq ret_def)

lemma keywordLoop_warn:
  assumes "\<exists>k \<in> set ks. regex_valid e k \<and> regex_test e k txt"
    and "users w uid = Some u"
    and "\<not> t \<le> c + 1"
    and "api e (sent w) (SendMessage uid (BlockNotification (c + 1) t) None None) \<noteq> TgError"
    and "w' = w\<lparr>users := (users w)(uid \<mapsto> u\<lparr>block_count := c + 1\<rparr>),
                 sent := sent w @ [SendMessage uid (BlockNotification (c + 1) t) None None]\<rparr>"
  shows "keywordLoop e uid txt t c ks w = (Returned True, w')"
  using assms(1)
proof (induction ks)
  case Nil
  then show ?case by simp
next
  case (Cons k ks)
  show ?case
  proof (cases "regex_valid e k \<and> regex_test e k txt")
    case True
    with assms(2,3,4,5) show ?thesis
      by (simp add: then_do_def try_catch_def ret_def dbUserUpdate_def telegramApi_def Let_def
            split: tg_result.split)
  next
    case False
    with Cons.prems have "\<exists>k \<in> set ks. regex_valid e k \<and> regex_test e k txt" by auto
    then have "keywordLoop e uid txt t c ks w = (Returned True, w')"
      by (rule Cons.IH)
    with False show ?thesis by auto
  qed
qed

lemma keywordLoop_block:
  assumes "\<exists>k \<in> set ks. regex_valid e k \<and> regex_test e k txt"
    and "users w uid = Some u"
    and "t \<le> c + 1"
    and "api e (sent w) (SendMessage uid (BlockNotification (c + 1) t) None None) \<noteq> TgError"
    and "api e (sent w @ [SendMessage uid (BlockNotification (c + 1) t) None None])
           (SendMessage uid AutoBlockMessage None None) \<noteq> TgError"
    and "w' = w\<lparr>users := (users w)(uid \<mapsto> u\<lparr>block_count := c + 1, is_blocked := True\<rparr>),
                 sent := sent w @ [SendMessage uid (BlockNotification (c + 1) t) None None,
                                   SendMessage uid AutoBlockMessage None None]\<rparr>"
  shows "keywordLoop e uid txt t c ks w = (Returned True, w')"
  using assms(1)
proof (induction ks)
  case Nil
  then show ?case by simp
next
  case (Cons k ks)
  show ?case
  proof (cases "regex_valid e k \<and> regex_test e k txt")
    case True
    with assms(2,3,4,5,6) show ?thesis
      by (simp add: then_do_def try_catch_def ret_def dbUserUpdate_def telegramApi_def Let_def
            split: tg_result.split)
  next
    case False
    with Cons.prems have "\<exists>k \<in> set ks. regex_valid e k \<and> regex_test e k txt" by auto
    then have "keywordLoop e uid txt t c ks w = (Returned True, w')"
      by (rule Cons.IH)
    with False show ?thesis by auto
  qed
qed

text \<open>One matching message of a verified, unblocked user whose text reaches the keyword
  stage, when the notices are delivered.\<close>

lemma keyword_hit_step:
  assumes "users w (chat_id m) = Some u" and "user_state u = Verified" and "\<not> is_blocked u"
    and "textOf m \<noteq> []" and "textOf m \<noteq> ''/start''" and "textOf m \<noteq> ''/help''"
    and "pendingInput e w (chat_id m) = None"
    and "blockKeywordsOf e w = Parsed ks"
    and "\<exists>k \<in> set ks. regex_valid e k \<and> regex_test e k (textOf m)"
    and "warn = SendMessage (chat_id m)
                  (BlockNotification (block_count u + 1) (blockThresholdOf e w)) None None"
    and "final = SendMessage (chat_id m) AutoBlockMessage None None"
    and "api e (sent w) warn \<noteq> TgError"
    and "blockThresholdOf e w \<le> block_count u + 1 \<Longrightarrow> api e (sent w @ [warn]) final \<noteq> TgError"
    and "w' = (if blockThresholdOf e w \<le> block_count u + 1
               then w\<lparr>users := (users w)(chat_id m \<mapsto>
                           u\<lparr>block_count := block_count u + 1, is_blocked := True\<rparr>),
                       sent := sent w @ [warn, final]\<rparr>
               else w\<lparr>users := (users w)(chat_id m \<mapsto> u\<lparr>block_count := block_count u + 1\<rparr>),
                       sent := sent w @ [warn]\<rparr>)"
  shows "handlePrivateMessage m e w = (Returned (), w')"
proof -
  have ne: "ks \<noteq> []" using assms(9) by auto
  have loop: "keywordLoop e (chat_id m) (textOf m) (blockThresholdOf e w) (block_count u) ks w
              = (Returned True, w')"
  proof (cases "blockThresholdOf e w \<le> block_count u + 1")
    case True
    show ?thesis
      by (rule keywordLoop_block[OF assms(9) assms(1) True])
         (use assms(10-14) True in simp_all)
  next
    case False
    show ?thesis
      by (rule keywordLoop_warn[OF assms(9) assms(1) False])
         (use assms(10-14) False in simp_all)
  qed
  have verified: "handleVerified m u e w = (Returned (), w')"
    using ne assms(4) loop
    by (simp add: handleVerified_def Let_def then_do_def ret_def
          getBlockKeywords_parsed[OF assms(8)] getBlockThreshold_eq)
  have admin: "(if isAdminUser (chat_id m) e then dbAdminStateGet (chat_id m) else ret None) w
               = (Returned None, w)"
    using assms(7) by (simp add: pendingInput_def dbAdminStateGet_eq ret_def split: if_splits)
  show ?thesis
    using assms(1,2,3,5,6) verified admin
    by (simp add: handlePrivateMessage_def Let_def then_do_def ret_def dbUserGetOrCreate_def)
qed


lemma same_config:
  assumes "config w1 = config w"
  shows "blockThresholdOf e w1 = blockThresholdOf e w"
    and "blockKeywordsOf e w1 = blockKeywordsOf e w"
    and "pendingInput e w1 uid = pendingInput e w uid"
  using assms
  by (simp_all add: blockThresholdOf_def blockKeywordsOf_def pendingInput_def configuredOr_def
        configured_def)

lemma keyword_hit_fields:
  assumes "users w (chat_id m) = Some u" and "user_state u = Verified" and "\<not> is_blocked u"
    and "textOf m \<noteq> []" and "textOf m \<noteq> ''/start''" and "textOf m \<noteq> ''/help''"
    and "pendingInput e w (chat_id m) = None"
    and "blockKeywordsOf e w = Parsed ks"
    and "\<exists>k \<in> set ks. regex_valid e k \<and> regex_test e k (textOf m)"
    and "\<And>log call. api e log call \<noteq> TgError"
  shows "config (snd (handlePrivateMessage m e w)) = config w"
    and "users (snd (handlePrivateMessage m e w)) (chat_id m) =
           Some (u\<lparr>block_count := block_count u + 1,
                   is_blocked := (blockThresholdOf e w \<le> block_count u + 1)\<rparr>)"
proof -
  have step: "handlePrivateMessage m e w =
     (Returned (),
      if blockThresholdOf e w \<le> block_count u + 1
      then w\<lparr>users := (users w)(chat_id m \<mapsto>
                  u\<lparr>block_count := block_count u + 1, is_blocked := True\<rparr>),
              sent := sent w @
                [SendMessage (chat_id m)
                   (BlockNotification (block_count u + 1) (blockThresholdOf e w)) None None,
                 SendMessage (chat_id m) AutoBlockMessage None None]\<rparr>
      else w\<lparr>users := (users w)(chat_id m \<mapsto> u\<lparr>block_count := block_count u + 1\<rparr>),
              sent := sent w @
                [SendMessage (chat_id m)
                   (BlockNotification (block_count u + 1) (blockThresholdOf e w)) None None]\<rparr>)"
    by (rule keyword_hit_step[OF assms(1-9) refl refl assms(10) assms(10) refl])
  show "config (snd (handlePrivateMessage m e w)) = config w"
    by (simp add: step)
  have "u\<lparr>block_count := block_count u + 1\<rparr> =
        u\<lparr>block_count := block_count u + 1, is_blocked := False\<rparr>"
    using assms(3) by (cases u) simp
  then show "users (snd (handlePrivateMessage m e w)) (chat_id m) =
           Some (u\<lparr>block_count := block_count u + 1,
                   is_blocked := (blockThresholdOf e w \<le> block_count u + 1)\<rparr>)"
    by (simp add: step)
qed

text \<open>C5 (amended). For every verified, unblocked session with block_count = c and
  threshold t, a non-empty message that is neither \<open>/start\<close> nor \<open>/help\<close>, is not consumed
  as an administrator's pending input, and matches some configured block pattern
  increments the persisted count to c+1 and is not forwarded, provided the notices are
  delivered: if c+1 >= t the blocked flag is set to true and, after the warning showing
  (c+1)/t, the final notice is sent; otherwise blocked stays false and the warning showing
  (c+1)/t is sent; these notices are the only calls. With t = 3 and a transport that
  delivers, three such messages block the user on the third, while two leave blocked =
  false and block_count = 2. (What happens when a notice cannot be sent is left open
  here.)\<close>

theorem keyword_block_counting:
  assumes "users w (chat_id m) = Some u" and "user_state u = Verified" and "\<not> is_blocked u"
    and "textOf m \<noteq> []" and "textOf m \<noteq> ''/start''" and "textOf m \<noteq> ''/help''"
    and "pendingInput e w (chat_id m) = None"
    and "blockKeywordsOf e w = Parsed ks"
    and "\<exists>k \<in> set ks. regex_valid e k \<and> regex_test e k (textOf m)"
    and "block_count u = c" and "blockThresholdOf e w = t"
    and "warn = SendMessage (chat_id m) (BlockNotification (c + 1) t) None None"
    and "final = SendMessage (chat_id m) AutoBlockMessage None None"
    and "api e (sent w) warn \<noteq> TgError"
    and "t \<le> c + 1 \<Longrightarrow> api e (sent w @ [warn]) final \<noteq> TgError"
  shows "handlePrivateMessage m e w =
           (Returned (),
            if t \<le> c + 1
            then w\<lparr>users := (users w)(chat_id m \<mapsto> u\<lparr>block_count := c + 1, is_blocked := True\<rparr>),
                    sent := sent w @ [warn, final]\<rparr>
            else w\<lparr>users := (users w)(chat_id m \<mapsto> u\<lparr>block_count := c + 1\<rparr>),
                    sent := sent w @ [warn]\<rparr>) \<and>
         (t = 3 \<and> c = 0 \<and> (\<forall>log call. api e log call \<noteq> TgError) \<longrightarrow>
            map_option block_count (users (handlePrivateMessages e [m, m] w) (chat_id m)) = Some 2 \<and>
            map_option is_blocked (users (handlePrivateMessages e [m, m] w) (chat_id m)) = Some False \<and>
            map_option is_blocked (users (handlePrivateMessages e [m, m, m] w) (chat_id m))
              = Some True)"
proof -
  have one: "handlePrivateMessage m e w =
           (Returned (),
            if t \<le> c + 1
            then w\<lparr>users := (users w)(chat_id m \<mapsto> u\<lparr>block_count := c + 1, is_blocked := True\<rparr>),
                    sent := sent w @ [warn, final]\<rparr>
            else w\<lparr>users := (users w)(chat_id m \<mapsto> u\<lparr>block_count := c + 1\<rparr>),
                    sent := sent w @ [warn]\<rparr>)"
    by (rule keyword_hit_step[OF assms(1-9), of warn final])
       (use assms(10-15) in simp_all)
  have many: "map_option block_count (users (handlePrivateMessages e [m, m] w) (chat_id m)) = Some 2 \<and>
            map_option is_blocked (users (handlePrivateMessages e [m, m] w) (chat_id m)) = Some False \<and>
            map_option is_blocked (users (handlePrivateMessages e [m, m, m] w) (chat_id m))
              = Some True"
    if t3: "t = 3" and c0: "c = 0" and ok: "\<forall>log call. api e log call \<noteq> TgError"
  proof -
    from ok have ok': "\<And>log call. api e log call \<noteq> TgError" by simp
    let ?w1 = "snd (handlePrivateMessage m e w)"
    let ?u1 = "u\<lparr>block_count := 1, is_blocked := False\<rparr>"
    have c1: "config ?w1 = config w"
      by (rule keyword_hit_fields(1)[OF assms(1-9) ok'])
    have u1: "users ?w1 (chat_id m) = Some ?u1"
      using keyword_hit_fields(2)[OF assms(1-9) ok'] assms(10,11) t3 c0 by simp
    let ?w2 = "snd (handlePrivateMessage m e ?w1)"
    let ?u2 = "u\<lparr>block_count := 2, is_blocked := False\<rparr>"
    have s1: "user_state ?u1 = Verified" "\<not> is_blocked ?u1" using assms(2) by simp_all
    have p1: "pendingInput e ?w1 (chat_id m) = None" "blockKeywordsOf e ?w1 = Parsed ks"
      using same_config[OF c1] assms(7,8) by simp_all
    have t1: "blockThresholdOf e ?w1 = 3" using same_config(1)[OF c1] assms(11) t3 by simp
    have c2: "config ?w2 = config w"
      using keyword_hit_fields(1)[OF u1 s1 assms(4-6) p1 assms(9) ok'] c1 by simp
    have u2: "users ?w2 (chat_id m) = Some ?u2"
      using keyword_hit_fields(2)[OF u1 s1 assms(4-6) p1 assms(9) ok'] t1 by simp
    let ?w3 = "snd (handlePrivateMessage m e ?w2)"
    have s2: "user_state ?u2 = Verified" "\<not> is_blocked ?u2" using assms(2) by simp_all
    have p2: "pendingInput e ?w2 (chat_id m) = None" "blockKeywordsOf e ?w2 = Parsed ks"
      using same_config[OF c2] assms(7,8) by simp_all
    have t2: "blockThresholdOf e ?w2 = 3" using same_config(1)[OF c2] assms(11) t3 by simp
    have u3: "users ?w3 (chat_id m) = Some (u\<lparr>block_count := 3, is_blocked := True\<rparr>)"
      using keyword_hit_fields(2)[OF u2 s2 assms(4-6) p2 assms(9) ok'] t2 by simp
    show ?thesis using u2 u3 by simp
  qed
  from one many show ?thesis by blast
qed

lemma spam_scene:
  "users (spam_world th cnt) (chat_id spam_message) = Some (user_row_of Verified False cnt (Some 5))"
  "user_state (user_row_of Verified False cnt (Some 5)) = Verified"
  "\<not> is_blocked (user_row_of Verified False cnt (Some 5))"
  "textOf spam_message \<noteq> []"
  "textOf spam_message \<noteq> ''/start''"
  "textOf spam_message \<noteq> ''/help''"
  "pendingInput spam_env (spam_world th cnt) (chat_id spam_message) = None"
  "block_count (user_row_of Verified False cnt (Some 5)) = cnt"
  "chat_id spam_message = ''42''"
  "sent (spam_world th cnt) = []"
  by (simp_all add: spam_world_def spam_message_def spam_env_def world_of_def user_row_of_def
        text_message_def textOf_def pendingInput_def isAdminUser_def scenario_env_def)

lemma spam_keywords: "blockKeywordsOf spam_env (spam_world th cnt) = Parsed [''spam'']"
  by (simp add: blockKeywordsOf_def configuredOr_def configured_def spam_world_def world_of_def
        spam_env_def scenario_env_def)

lemma spam_matches:
  "\<exists>k \<in> set [''spam'']. regex_valid spam_env k \<and> regex_test spam_env k (textOf spam_message)"
  by code_simp

lemma spam_api: "api spam_env log call \<noteq> TgError"
  by (simp add: spam_env_def scenario_env_def all_ok_def split: tg_call.split)

lemma spam_threshold_3: "blockThresholdOf spam_env (spam_world ''3'' cnt) = 3"
  by (simp add: blockThresholdOf_def configuredOr_def configured_def spam_world_def world_of_def
        parseInt_def isWhiteSpace_def isDigit_def digitsValue_def orDefault_def)

theorem keyword_block_counting_witness:
  "handlePrivateMessage spam_message spam_env (spam_world ''3'' 0) =
     (Returned (),
      (spam_world ''3'' 0)
        \<lparr>users := [''42'' \<mapsto> user_row_of Verified False 1 (Some 5)],
         sent := [SendMessage ''42'' (BlockNotification 1 3) None None]\<rparr>) \<and>
   map_option block_count
     (users (handlePrivateMessages spam_env [spam_message, spam_message] (spam_world ''3'' 0))
        ''42'') = Some 2 \<and>
   map_option is_blocked
     (users (handlePrivateMessages spam_env [spam_message, spam_message] (spam_world ''3'' 0))
        ''42'') = Some False \<and>
   map_option is_blocked
     (users (handlePrivateMessages spam_env [spam_message, spam_message, spam_message]
               (spam_world ''3'' 0)) ''42'') = Some True"
proof -
  let ?w = "spam_world ''3'' 0"
  let ?u = "user_row_of Verified False 0 (Some 5)"
  note k = keyword_block_counting[OF spam_scene(1)[where th = "''3''" and cnt = 0]
             spam_scene(2-7) spam_keywords spam_matches
             spam_scene(8) spam_threshold_3 refl refl spam_api spam_api]
  have all: "\<forall>log call. api spam_env log call \<noteq> TgError" using spam_api by simp
  have row: "?u\<lparr>block_count := 1\<rparr> = user_row_of Verified False 1 (Some 5)"
    by (simp add: user_row_of_def)
  have us: "(users ?w)(''42'' \<mapsto> user_row_of Verified False 1 (Some 5))
            = [''42'' \<mapsto> user_row_of Verified False 1 (Some 5)]"
    by (simp add: spam_world_def world_of_def)
  have a: "handlePrivateMessage spam_message spam_env ?w =
     (Returned (),
      ?w\<lparr>users := [''42'' \<mapsto> user_row_of Verified False 1 (Some 5)],
         sent := [SendMessage ''42'' (BlockNotification 1 3) None None]\<rparr>)"
    using conjunct1[OF k] by (simp add: spam_scene(9,10) row us)
  have b: "map_option block_count
     (users (handlePrivateMessages spam_env [spam_message, spam_message] ?w) ''42'') = Some 2 \<and>
   map_option is_blocked
     (users (handlePrivateMessages spam_env [spam_message, spam_message] ?w) ''42'')
     = Some False \<and>
   map_option is_blocked
     (users (handlePrivateMessages spam_env [spam_message, spam_message, spam_message] ?w)
        ''42'') = Some True"
    using conjunct2[OF k] all by (simp only: spam_scene(9) simp_thms)
  show ?thesis by (rule conjI[OF a b])
qed

text \<open>The claim as stated fails: with the keyword \<open>help\<close> stored, a verified, unblocked
  user sends \<open>/help\<close>, which matches; the command is answered before the keyword stage,
  and the count stays 0.\<close>

theorem matching_command_not_counted_counterexample:
  "blockKeywordsOf (scenario_env None all_ok [[''help'']]) help_world = Parsed [''help''] \<and>
   regex_test (scenario_env None all_ok [[''help'']]) ''help''
     (textOf (text_message 1 ''/help'')) \<and>
   users help_world ''42'' = Some (user_row_of Verified False 0 (Some 5)) \<and>
   map_option block_count
     (users (snd (handlePrivateMessage (text_message 1 ''/help'')
                    (scenario_env None all_ok [[''help'']]) help_world)) ''42'') = Some 0 \<and>
   sent (snd (handlePrivateMessage (text_message 1 ''/help'')
                (scenario_env None all_ok [[''help'']]) help_world))
     = [SendMessage ''42'' DefaultWelcome None None,
        SendMessage ''42'' DefaultVerificationQuestion None None]"
  by code_simp

text \<open>The values the fallback is about: a text with no digit at all, the empty text, and
  \<open>0\<close>.\<close>

lemma parseInt_no_digit:
  assumes "\<forall>c \<in> set v. \<not> isDigit c"
  shows "parseInt v = None"
proof -
  define t where "t = dropWhile isWhiteSpace v"
  define u where "u = (case t of [] \<Rightarrow> [] | c # r \<Rightarrow> if c = CHR ''-'' \<or> c = CHR ''+'' then r else t)"
  have "set t \<subseteq> set v"
    unfolding t_def by (auto dest: set_dropWhileD)
  moreover have "set u \<subseteq> set t"
    unfolding u_def by (cases t) auto
  ultimately have "\<forall>c \<in> set u. \<not> isDigit c"
    using assms by blast
  then have "takeWhile isDigit u = []"
    by (cases u) auto
  then show ?thesis
    unfolding parseInt_def Let_def u_def t_def by simp
qed

lemma parseInt_examples: "parseInt [] = None" "parseInt ''0'' = Some 0" "parseInt ''abc'' = None"
  by (simp_all add: parseInt_def isWhiteSpace_def isDigit_def digitsValue_def)

text \<open>C10. If the configured block_threshold value does not parse as a nonzero integer
  (\<open>parseInt\<close> yields \<open>NaN\<close>, as for a non-numeric or empty value, or 0), the keyword stage
  uses the threshold 5: a matching message of a verified, unblocked user with count c is
  answered with the warning showing (c+1)/5, and the user is blocked exactly when c+1
  reaches 5; in particular the value \<open>0\<close> does not block at once.\<close>

theorem block_threshold_fallback:
  assumes "parseInt (configuredOr e w ''block_threshold'' ''5'') = None \<or>
           parseInt (configuredOr e w ''block_threshold'' ''5'') = Some 0"
    and "users w (chat_id m) = Some u" and "user_state u = Verified" and "\<not> is_blocked u"
    and "textOf m \<noteq> []" and "textOf m \<noteq> ''/start''" and "textOf m \<noteq> ''/help''"
    and "pendingInput e w (chat_id m) = None"
    and "blockKeywordsOf e w = Parsed ks"
    and "\<exists>k \<in> set ks. regex_valid e k \<and> regex_test e k (textOf m)"
    and "block_count u = c"
    and "warn = SendMessage (chat_id m) (BlockNotification (c + 1) 5) None None"
    and "final = SendMessage (chat_id m) AutoBlockMessage None None"
    and "api e (sent w) warn \<noteq> TgError"
    and "5 \<le> c + 1 \<Longrightarrow> api e (sent w @ [warn]) final \<noteq> TgError"
  shows "getBlockThreshold e w = (Returned 5, w) \<and>
         handlePrivateMessage m e w =
           (Returned (),
            if 5 \<le> c + 1
            then w\<lparr>users := (users w)(chat_id m \<mapsto> u\<lparr>block_count := c + 1, is_blocked := True\<rparr>),
                    sent := sent w @ [warn, final]\<rparr>
            else w\<lparr>users := (users w)(chat_id m \<mapsto> u\<lparr>block_count := c + 1\<rparr>),
                    sent := sent w @ [warn]\<rparr>)"
proof -
  have five: "blockThresholdOf e w = 5"
    using assms(1) by (auto simp: blockThresholdOf_def orDefault_def)
  have a: "getBlockThreshold e w = (Returned 5, w)"
    by (simp add: getBlockThreshold_eq five)
  have b: "handlePrivateMessage m e w =
           (Returned (),
            if 5 \<le> c + 1
            then w\<lparr>users := (users w)(chat_id m \<mapsto> u\<lparr>block_count := c + 1, is_blocked := True\<rparr>),
                    sent := sent w @ [warn, final]\<rparr>
            else w\<lparr>users := (users w)(chat_id m \<mapsto> u\<lparr>block_count := c + 1\<rparr>),
                    sent := sent w @ [warn]\<rparr>)"
    by (rule keyword_hit_step[OF assms(2-10), of warn final])
       (use assms(11-15) five in simp_all)
  from a b show ?thesis by simp
qed

lemma spam_threshold_0:
  "parseInt (configuredOr spam_env (spam_world ''0'' cnt) ''block_threshold'' ''5'') = None \<or>
   parseInt (configuredOr spam_env (spam_world ''0'' cnt) ''block_threshold'' ''5'') = Some 0"
  by (simp add: configuredOr_def configured_def spam_world_def world_of_def
        parseInt_def isWhiteSpace_def isDigit_def digitsValue_def)

theorem block_threshold_fallback_witness:
  "getBlockThreshold spam_env (spam_world ''0'' 0) = (Returned 5, spam_world ''0'' 0) \<and>
   handlePrivateMessage spam_message spam_env (spam_world ''0'' 0) =
     (Returned (),
      (spam_world ''0'' 0)
        \<lparr>users := [''42'' \<mapsto> user_row_of Verified False 1 (Some 5)],
         sent := [SendMessage ''42'' (BlockNotification 1 5) None None]\<rparr>) \<and>
   handlePrivateMessage spam_message spam_env (spam_world ''0'' 4) =
     (Returned (),
      (spam_world ''0'' 4)
        \<lparr>users := [''42'' \<mapsto> user_row_of Verified True 5 (Some 5)],
         sent := [SendMessage ''42'' (BlockNotification 5 5) None None,
                  SendMessage ''42'' AutoBlockMessage None None]\<rparr>)"
proof -
  note k0 = block_threshold_fallback[OF spam_threshold_0[where cnt = 0] spam_scene(1-7)
              spam_keywords spam_matches spam_scene(8) refl refl spam_api spam_api]
  note k4 = block_threshold_fallback[OF spam_threshold_0[where cnt = 4] spam_scene(1-7)
              spam_keywords spam_matches spam_scene(8) refl refl spam_api spam_api]
  have row0: "(user_row_of Verified False 0 (Some 5))\<lparr>block_count := 1\<rparr>
              = user_row_of Verified False 1 (Some 5)"
    by (simp add: user_row_of_def)
  have row4: "(user_row_of Verified False 4 (Some 5))\<lparr>block_count := 5, is_blocked := True\<rparr>
              = user_row_of Verified True 5 (Some 5)"
    by (simp add: user_row_of_def)
  have us: "(users (spam_world ''0'' cnt))(''42'' \<mapsto> r) = [''42'' \<mapsto> r]" for cnt r
    by (simp add: spam_world_def world_of_def)
  have t: "getBlockThreshold spam_env (spam_world ''0'' 0) = (Returned 5, spam_world ''0'' 0)"
    by (rule conjunct1[OF k0])
  have a: "handlePrivateMessage spam_message spam_env (spam_world ''0'' 0) =
     (Returned (),
      (spam_world ''0'' 0)
        \<lparr>users := [''42'' \<mapsto> user_row_of Verified False 1 (Some 5)],
         sent := [SendMessage ''42'' (BlockNotification 1 5) None None]\<rparr>)"
    using conjunct2[OF k0] by (simp add: spam_scene(9,10) row0 us)
  have b: "handlePrivateMessage spam_message spam_env (spam_world ''0'' 4) =
     (Returned (),
      (spam_world ''0'' 4)
        \<lparr>users := [''42'' \<mapsto> user_row_of Verified True 5 (Some 5)],
         sent := [SendMessage ''42'' (BlockNotification 5 5) None None,
                  SendMessage ''42'' AutoBlockMessage None None]\<rparr>)"
    using conjunct2[OF k4] by (simp add: spam_scene(9,10) row4 us)
  show ?thesis by (rule conjI[OF t conjI[OF a b]])
qed

end
